theory Spec2Isabelle
  imports Complex_Main
begin

section \<open>Data model (apps/public/models.py)\<close>

text \<open>
  \<^verbatim>\<open>Order.STATUS_CHOICES\<close>: the four values a status column takes.
\<close>

datatype order_status = Pending | Paid | Cancelled | Failed

text \<open>
  \<^verbatim>\<open>class Order(models.Model)\<close>. \<^verbatim>\<open>total_amount\<close> is a
  \<^verbatim>\<open>DecimalField(max_digits=10, decimal_places=2)\<close>: a Python Decimal, modelled by the
  rational number it denotes (ten digits are far below the Decimal context's 28, so sums and
  the product with 100 are exact). Nullable columns are options. \<^verbatim>\<open>created_at\<close> and
  \<^verbatim>\<open>updated_at\<close> hold the value of \<^verbatim>\<open>int(dt.timestamp() * 1000)\<close> of the
  stored datetime. The primary key \<^verbatim>\<open>id\<close> is the field \<open>order_id\<close>; the
  foreign key \<^verbatim>\<open>participant\<close> is NOT NULL.
\<close>

record order =
  order_id :: int
  participant_id :: nat
  olympiad_id :: "int option"
  subject_id :: "int option"
  total_amount :: rat
  status :: order_status
  payment_method :: string
  created_at :: int
  updated_at :: int
  payme_transaction_id :: "string option"
  payme_create_time :: "int option"
  payme_perform_time :: "int option"
  payme_cancel_time :: "int option"
  payme_state :: "int option"
  payme_cancel_reason :: "int option"
  click_trans_id :: "int option"
  click_prepare_id :: "int option"

text \<open>The two fields of \<^verbatim>\<open>Participant\<close> that the payment code reads and writes.\<close>

record participant =
  is_paid :: bool
  paid_at :: "int option"

record olympiad =
  olympiad_pk :: int
  is_active :: bool

record subject =
  subject_pk :: int
  subject_olympiad :: "olympiad option"
  ticket_price :: rat

text \<open>
  The database. \<open>orders\<close> lists the rows of the Order table in the model's default
  ordering (\<^verbatim>\<open>ordering = ["-created_at"]\<close>, newest first), so that
  \<^verbatim>\<open>.first()\<close> is the first match in the list; \<open>subjects\<close> lists the Subject
  table in its default ordering; \<open>next_order_id\<close> is the value the
  \<^verbatim>\<open>BigAutoField\<close> sequence hands out next.
\<close>

record store =
  orders :: "order list"
  participants :: "nat \<rightharpoonup> participant"
  subjects :: "subject list"
  next_order_id :: int

record settings =
  PAYME_ID :: "string option"
  PAYME_KEY :: "string option"
  CLICK_SERVICE_ID :: "string option"
  CLICK_MERCHANT_ID :: "string option"

section \<open>Python helpers\<close>

text \<open>\<^verbatim>\<open>int(d)\<close> of a Decimal truncates towards zero.\<close>

definition int_of_decimal :: "rat \<Rightarrow> int" where
  "int_of_decimal d = (if d < 0 then - \<lfloor>- d\<rfloor> else \<lfloor>d\<rfloor>)"

text \<open>\<^verbatim>\<open>x or d\<close> for a nullable integer column: \<^verbatim>\<open>None\<close> and \<^verbatim>\<open>0\<close> are falsy.\<close>

definition or_else :: "int option \<Rightarrow> int \<Rightarrow> int" where
  "or_else x d = (case x of None \<Rightarrow> d | Some v \<Rightarrow> if v = 0 then d else v)"

text \<open>Truthiness of a nullable string and of a nullable integer.\<close>

definition truthy_str :: "string option \<Rightarrow> bool" where
  "truthy_str x = (case x of None \<Rightarrow> False | Some v \<Rightarrow> v \<noteq> [])"

definition truthy_int :: "int option \<Rightarrow> bool" where
  "truthy_int x = (case x of None \<Rightarrow> False | Some v \<Rightarrow> v \<noteq> 0)"

text \<open>\<^verbatim>\<open>order.payme_state in (-1, -2)\<close>.\<close>

definition in_cancelled_states :: "int option \<Rightarrow> bool" where
  "in_cancelled_states st = (st = Some (- 1) \<or> st = Some (- 2))"

text \<open>
  A DecimalField with two decimal places holds a whole number of hundredths.
\<close>

definition two_decimal_places :: "rat \<Rightarrow> bool" where
  "two_decimal_places d = (of_int \<lfloor>d * 100\<rfloor> = d * 100)"

section \<open>Queries and writes\<close>

text \<open>\<^verbatim>\<open>Order.objects.filter(id=order_id).first()\<close>\<close>

definition order_by_id :: "store \<Rightarrow> int \<Rightarrow> order option" where
  "order_by_id s i = find (\<lambda>x. order_id x = i) (orders s)"

text \<open>\<^verbatim>\<open>Order.objects.filter(payme_transaction_id=str(transaction_id)).first()\<close>\<close>

definition order_by_transaction :: "store \<Rightarrow> string \<Rightarrow> order option" where
  "order_by_transaction s t = find (\<lambda>x. payme_transaction_id x = Some t) (orders s)"

text \<open>
  \<^verbatim>\<open>order.save(update_fields=[...])\<close>: the row with the order's primary key takes the
  values of the instance. The instance was read in the same request, so the columns outside
  \<^verbatim>\<open>update_fields\<close> are the ones already stored.
\<close>

definition save_order :: "order \<Rightarrow> store \<Rightarrow> store" where
  "save_order ord s =
     s\<lparr>orders := map (\<lambda>x. if order_id x = order_id ord then ord else x) (orders s)\<rparr>"

text \<open>
  \<^verbatim>\<open>p = order.participant; p.is_paid = ...; p.paid_at = ...; p.save(...)\<close>. Reading the
  related row raises \<^verbatim>\<open>DoesNotExist\<close> when it is missing: \<open>None\<close>.
\<close>

definition sync_participant :: "nat \<Rightarrow> bool \<Rightarrow> int option \<Rightarrow> store \<Rightarrow> store option" where
  "sync_participant pid paid stamp s =
     (case participants s pid of
        None \<Rightarrow> None
      | Some p \<Rightarrow> Some (s\<lparr>participants := (participants s)(pid \<mapsto> p\<lparr>is_paid := paid, paid_at := stamp\<rparr>)\<rparr>))"

section \<open>Payme merchant API (apps/api/payment_views.py)\<close>

definition ERROR_INTERNAL_SERVER :: int where "ERROR_INTERNAL_SERVER = - 32400"
definition ERROR_INSUFFICIENT_PRIVILEGE :: int where "ERROR_INSUFFICIENT_PRIVILEGE = - 32504"
definition ERROR_INVALID_JSON_RPC_OBJECT :: int where "ERROR_INVALID_JSON_RPC_OBJECT = - 32600"
definition ERROR_METHOD_NOT_FOUND :: int where "ERROR_METHOD_NOT_FOUND = - 32601"
definition ERROR_INVALID_PARAMS :: int where "ERROR_INVALID_PARAMS = - 32602"
definition ERROR_INVALID_AMOUNT :: int where "ERROR_INVALID_AMOUNT = - 31001"
definition ERROR_ORDER_NOT_FOUND :: int where "ERROR_ORDER_NOT_FOUND = - 31050"
definition ERROR_CANT_PERFORM_OPERATION :: int where "ERROR_CANT_PERFORM_OPERATION = - 31008"
definition ERROR_ORDER_ALREADY_PAID :: int where "ERROR_ORDER_ALREADY_PAID = - 31051"
definition ERROR_TRANSACTION_NOT_FOUND :: int where "ERROR_TRANSACTION_NOT_FOUND = - 31003"

text \<open>
  The \<^verbatim>\<open>params\<close> object of a JSON-RPC request, field by field as the handlers read it.
  \<open>account_order_id\<close> is the result of \<^verbatim>\<open>_get_order_id\<close> and \<open>amount\<close> that of
  \<^verbatim>\<open>_get_amount_tiyin\<close> (\<open>None\<close> when the key is absent or \<^verbatim>\<open>int()\<close>
  fails); \<open>transaction_id\<close> is \<^verbatim>\<open>params.get("id")\<close>, \<open>time\<close> is
  \<^verbatim>\<open>params.get("time")\<close>, \<open>reason\<close> is \<^verbatim>\<open>params.get("reason")\<close>, and
  \<open>from_ts\<close>, \<open>to_ts\<close> are \<^verbatim>\<open>int(params.get("from"))\<close>, \<^verbatim>\<open>int(params.get("to"))\<close>
  (\<open>None\<close> when the conversion raises).
\<close>

record rpc_params =
  account_order_id :: "int option"
  amount :: "int option"
  transaction_id :: "string option"
  time :: "int option"
  reason :: "int option"
  from_ts :: "int option"
  to_ts :: "int option"

type_synonym rpc_id = "int option"

text \<open>One entry of the \<^verbatim>\<open>transactions\<close> list of GetStatement.\<close>

record statement_tx =
  tx_id :: string
  tx_time :: int
  tx_amount :: int
  tx_account_order_id :: int
  tx_create_time :: int
  tx_perform_time :: int
  tx_cancel_time :: int
  tx_transaction :: string
  tx_state :: int
  tx_reason :: "int option"

text \<open>
  The \<^verbatim>\<open>result\<close> dictionaries of the six methods. \<open>CreateResult c t s\<close> is
  \<^verbatim>\<open>{"create_time": c, "transaction": t, "state": s}\<close>, and so on;
  \<open>CheckResult c p x t s r\<close> is \<^verbatim>\<open>{"create_time": c, "perform_time": p, "cancel_time": x,
  "transaction": t, "state": s, "reason": r}\<close>.
\<close>

datatype rpc_result =
    Allow bool
  | CreateResult int string int
  | PerformResult int string int
  | CancelResult int string int
  | CheckResult int int int string int "int option"
  | StatementResult "statement_tx list"

text \<open>
  \<^verbatim>\<open>_success(rpc_id, result)\<close> and \<^verbatim>\<open>_error(rpc_id, code, message, data)\<close>.
\<close>

datatype response =
    Success rpc_id rpc_result
  | Error rpc_id int string "string option"

text \<open>
  An exception that leaves a handler is caught by \<^verbatim>\<open>post\<close>, which answers with the
  internal fault; the handler's \<^verbatim>\<open>transaction.atomic()\<close> block has rolled its writes
  back by then. In the model a handler that raises returns this response and the store it
  was given.
\<close>

definition internal_error :: "rpc_id \<Rightarrow> response" where
  "internal_error rpc = Error rpc ERROR_INTERNAL_SERVER ''Internal server error'' None"

definition expected_amount_tiyin :: "order \<Rightarrow> int" where
  "expected_amount_tiyin ord = int_of_decimal (total_amount ord * 100)"

definition check_perform_transaction :: "rpc_id \<Rightarrow> rpc_params \<Rightarrow> store \<Rightarrow> response" where
  "check_perform_transaction rpc params s =
     (case account_order_id params of
        None \<Rightarrow> Error rpc ERROR_INVALID_PARAMS ''Invalid Params'' (Some ''order_id'')
      | Some oid \<Rightarrow>
     (case amount params of
        None \<Rightarrow> Error rpc ERROR_INVALID_PARAMS ''Invalid Params'' (Some ''amount'')
      | Some amount_tiyin \<Rightarrow>
     (case order_by_id s oid of
        None \<Rightarrow> Error rpc ERROR_ORDER_NOT_FOUND ''Order not found'' (Some ''order_id'')
      | Some ord \<Rightarrow>
          if status ord = Paid then
            Error rpc ERROR_ORDER_ALREADY_PAID ''Order already paid'' (Some ''order_id'')
          else if status ord = Cancelled then
            Error rpc ERROR_ORDER_NOT_FOUND ''Order is blocked'' (Some ''order_id'')
          else if amount_tiyin \<noteq> expected_amount_tiyin ord then
            Error rpc ERROR_INVALID_AMOUNT ''Invalid amount'' (Some ''amount'')
          else Success rpc (Allow True))))"

text \<open>
  \<^verbatim>\<open>_create_transaction\<close>. \<open>now\<close> is the value \<^verbatim>\<open>_now_ms()\<close> returns in this
  request.
\<close>

definition create_transaction :: "int \<Rightarrow> rpc_id \<Rightarrow> rpc_params \<Rightarrow> store \<Rightarrow> response \<times> store" where
  "create_transaction now rpc params s =
     (case account_order_id params of
        None \<Rightarrow> (Error rpc ERROR_INVALID_PARAMS ''Invalid Params'' (Some ''order_id''), s)
      | Some oid \<Rightarrow>
     (case amount params of
        None \<Rightarrow> (Error rpc ERROR_INVALID_PARAMS ''Invalid Params'' (Some ''amount''), s)
      | Some amount_tiyin \<Rightarrow>
     (if \<not> truthy_str (transaction_id params) then
        (Error rpc ERROR_INVALID_PARAMS ''Invalid Params'' (Some ''id''), s)
      else
        let tid = the (transaction_id params);
            create_time = (case time params of None \<Rightarrow> now | Some t \<Rightarrow> t)
        in
     (case order_by_id s oid of
        None \<Rightarrow> (Error rpc ERROR_ORDER_NOT_FOUND ''Order not found'' (Some ''order_id''), s)
      | Some ord \<Rightarrow>
          if amount_tiyin \<noteq> expected_amount_tiyin ord then
            (Error rpc ERROR_INVALID_AMOUNT ''Invalid amount'' (Some ''amount''), s)
          else if status ord = Paid then
            (Error rpc ERROR_ORDER_ALREADY_PAID ''Order already paid'' (Some ''order_id''), s)
          else if status ord = Cancelled then
            (Error rpc ERROR_ORDER_NOT_FOUND ''Order is blocked'' (Some ''order_id''), s)
          else if truthy_str (payme_transaction_id ord) then
            (if payme_transaction_id ord = Some tid then
               (Success rpc (CreateResult (or_else (payme_create_time ord) create_time)
                               (the (payme_transaction_id ord))
                               (or_else (payme_state ord) 1)), s)
             else
               (Error rpc ERROR_ORDER_NOT_FOUND ''Order is busy'' (Some ''order_id''), s))
          else
            (Success rpc (CreateResult create_time tid 1),
             save_order (ord\<lparr>payme_transaction_id := Some tid,
                              payme_create_time := Some create_time,
                              payme_state := Some 1\<rparr>) s)))))"

text \<open>
  \<^verbatim>\<open>_perform_transaction\<close>. \<open>now\<close> stands for the clock of the request: both
  \<^verbatim>\<open>_now_ms()\<close> and the \<^verbatim>\<open>timezone.now()\<close> written to \<^verbatim>\<open>paid_at\<close> and,
  through \<^verbatim>\<open>auto_now\<close>, to \<^verbatim>\<open>updated_at\<close>. \<^verbatim>\<open>int(order.payme_state)\<close> raises
  on \<^verbatim>\<open>None\<close>. \<^verbatim>\<open>order.participant_id\<close> is a primary key of a NOT NULL foreign
  key, always truthy.
\<close>

definition perform_transaction :: "int \<Rightarrow> rpc_id \<Rightarrow> rpc_params \<Rightarrow> store \<Rightarrow> response \<times> store" where
  "perform_transaction now rpc params s =
     (if \<not> truthy_str (transaction_id params) then
        (Error rpc ERROR_INVALID_PARAMS ''Invalid Params'' (Some ''id''), s)
      else
        let tid = the (transaction_id params) in
     (case order_by_transaction s tid of
        None \<Rightarrow> (Error rpc ERROR_TRANSACTION_NOT_FOUND ''Transaction not found'' (Some ''id''), s)
      | Some ord \<Rightarrow>
          if in_cancelled_states (payme_state ord) \<or> status ord = Cancelled then
            (case payme_state ord of
               None \<Rightarrow> (internal_error rpc, s)
             | Some stored_state \<Rightarrow>
                 (Success rpc (CancelResult (or_else (payme_cancel_time ord) 0) tid stored_state), s))
          else if payme_state ord = Some 2 \<or> status ord = Paid then
            (Success rpc (PerformResult (or_else (payme_perform_time ord) 0) tid 2), s)
          else
            let s1 = save_order (ord\<lparr>status := Paid, payme_state := Some 2,
                                      payme_perform_time := Some now, updated_at := now\<rparr>) s
            in (case sync_participant (participant_id ord) True (Some now) s1 of
                  None \<Rightarrow> (internal_error rpc, s)
                | Some s2 \<Rightarrow> (Success rpc (PerformResult now tid 2), s2))))"

text \<open>\<^verbatim>\<open>_cancel_transaction\<close>.\<close>

definition cancel_transaction :: "int \<Rightarrow> rpc_id \<Rightarrow> rpc_params \<Rightarrow> store \<Rightarrow> response \<times> store" where
  "cancel_transaction now rpc params s =
     (if \<not> truthy_str (transaction_id params) then
        (Error rpc ERROR_INVALID_PARAMS ''Invalid Params'' (Some ''id''), s)
      else
        let tid = the (transaction_id params) in
     (case order_by_transaction s tid of
        None \<Rightarrow> (Error rpc ERROR_TRANSACTION_NOT_FOUND ''Transaction not found'' (Some ''id''), s)
      | Some ord \<Rightarrow>
          let perform_time_db = or_else (payme_perform_time ord) 0;
              was_performed = (perform_time_db > 0 \<or> payme_state ord = Some 2 \<or> status ord = Paid)
          in
          if status ord = Cancelled \<or> in_cancelled_states (payme_state ord) then
            let expected_state = (if was_performed then - 2 else - 1);
                heal = (or_else (payme_state ord) 0 \<noteq> expected_state);
                ord1 = (if heal then
                          ord\<lparr>payme_cancel_time :=
                                 (if \<not> truthy_int (payme_cancel_time ord) then Some now
                                  else payme_cancel_time ord),
                               payme_state := Some expected_state,
                               payme_cancel_reason :=
                                 (case payme_cancel_reason ord of
                                    None \<Rightarrow> (case reason params of
                                               Some r \<Rightarrow> Some r
                                             | None \<Rightarrow> Some (if was_performed then 5 else 3))
                                  | Some r \<Rightarrow> Some r),
                               updated_at := now\<rparr>
                        else ord);
                s1 = (if heal then save_order ord1 s else s)
            in (case payme_state ord1 of
                  None \<Rightarrow> (internal_error rpc, s)
                | Some st \<Rightarrow>
                    (Success rpc (CancelResult (or_else (payme_cancel_time ord1) 0) tid st), s1))
          else
            let state = (if was_performed then - 2 else - 1);
                reason1 = (case reason params of
                             None \<Rightarrow> (if was_performed then 5 else 3)
                           | Some r \<Rightarrow> r);
                ord1 = ord\<lparr>status := Cancelled, payme_state := Some state,
                           payme_cancel_time := Some now,
                           payme_cancel_reason := Some reason1,
                           payme_perform_time :=
                             (if \<not> was_performed then Some 0 else payme_perform_time ord),
                           updated_at := now\<rparr>;
                s1 = save_order ord1 s
            in if was_performed then
                 (case sync_participant (participant_id ord) False None s1 of
                    None \<Rightarrow> (internal_error rpc, s)
                  | Some s2 \<Rightarrow> (Success rpc (CancelResult now tid state), s2))
               else (Success rpc (CancelResult now tid state), s1)))"

text \<open>
  \<^verbatim>\<open>_get_statement\<close>: one entry per order of the queryset, in its order.
\<close>

definition statement_entry :: "order \<Rightarrow> statement_tx" where
  "statement_entry ord =
     (let create_time = or_else (payme_create_time ord) 0;
          perform_time = or_else (payme_perform_time ord) 0;
          cancel_time = or_else (payme_cancel_time ord) 0;
          state = or_else (payme_state ord) 1;
          amount_tiyin = int_of_decimal (total_amount ord * 100)
      in \<lparr>tx_id = the (payme_transaction_id ord),
          tx_time = create_time,
          tx_amount = amount_tiyin,
          tx_account_order_id = order_id ord,
          tx_create_time = create_time,
          tx_perform_time = (if perform_time > 0 then perform_time else 0),
          tx_cancel_time = (if state = - 1 \<or> state = - 2 then cancel_time else 0),
          tx_transaction = the (payme_transaction_id ord),
          tx_state = state,
          tx_reason = (if state = - 1 \<or> state = - 2 then payme_cancel_reason ord else None)\<rparr>)"

definition in_statement_range :: "int \<Rightarrow> int \<Rightarrow> order \<Rightarrow> bool" where
  "in_statement_range from_t to_t ord =
     (payme_transaction_id ord \<noteq> None \<and>
      (case payme_create_time ord of None \<Rightarrow> False | Some c \<Rightarrow> from_t \<le> c \<and> c \<le> to_t))"

definition get_statement :: "rpc_id \<Rightarrow> rpc_params \<Rightarrow> store \<Rightarrow> response" where
  "get_statement rpc params s =
     (case (from_ts params, to_ts params) of
        (Some from_t, Some to_t) \<Rightarrow>
          if from_t > to_t then
            Error rpc ERROR_INVALID_PARAMS ''Invalid Params'' (Some ''from>to'')
          else
            Success rpc (StatementResult
              (map statement_entry (filter (in_statement_range from_t to_t) (orders s))))
      | _ \<Rightarrow> Error rpc ERROR_INVALID_PARAMS ''Invalid Params'' (Some ''from/to''))"

text \<open>
  \<^verbatim>\<open>_check_transaction\<close>. \<^verbatim>\<open>order.created_at\<close> and \<^verbatim>\<open>order.updated_at\<close> are
  datetimes of NOT NULL columns, hence truthy: the \<^verbatim>\<open>_now_ms()\<close> fallbacks are not
  reached.
\<close>

definition check_transaction :: "rpc_id \<Rightarrow> rpc_params \<Rightarrow> store \<Rightarrow> response" where
  "check_transaction rpc params s =
     (if \<not> truthy_str (transaction_id params) then
        Error rpc ERROR_INVALID_PARAMS ''Invalid Params'' (Some ''id'')
      else
        let tid = the (transaction_id params) in
     (case order_by_transaction s tid of
        None \<Rightarrow> Error rpc ERROR_TRANSACTION_NOT_FOUND ''Transaction not found'' (Some ''id'')
      | Some ord \<Rightarrow>
          let state = or_else (payme_state ord) 1;
              create_time0 = or_else (payme_create_time ord) 0;
              perform_time_db = or_else (payme_perform_time ord) 0;
              cancel_time0 = or_else (payme_cancel_time ord) 0;
              create_time = (if create_time0 \<le> 0 then created_at ord else create_time0);
              cancel_time = (if (state = - 1 \<or> state = - 2) \<and> cancel_time0 \<le> 0
                             then updated_at ord else cancel_time0);
              perform_time =
                (if state = - 1 then 0
                 else if state = - 2 then (if perform_time_db > 0 then perform_time_db else create_time)
                 else if state = 2 then (if perform_time_db > 0 then perform_time_db else create_time)
                 else 0)
          in Success rpc (CheckResult create_time perform_time
                            (if state = - 1 \<or> state = - 2 then cancel_time else 0)
                            tid state
                            (if state = - 1 \<or> state = - 2 then payme_cancel_reason ord else None))))"

subsection \<open>Envelope and authorisation\<close>

text \<open>ASCII whitespace as \<^verbatim>\<open>str.strip()\<close> removes it.\<close>

definition is_space :: "char \<Rightarrow> bool" where
  "is_space c = (let n = (of_char c :: nat) in (9 \<le> n \<and> n \<le> 13) \<or> (28 \<le> n \<and> n \<le> 32))"

definition strip :: "string \<Rightarrow> string" where
  "strip xs = rev (dropWhile is_space (rev (dropWhile is_space xs)))"

text \<open>\<^verbatim>\<open>(getattr(settings, "PAYME_KEY", ...) or "").strip()\<close>\<close>

definition payme_key :: "settings \<Rightarrow> string" where
  "payme_key cfg = strip (case PAYME_KEY cfg of None \<Rightarrow> [] | Some k \<Rightarrow> k)"

text \<open>
  \<^verbatim>\<open>_verify_auth\<close>. \<open>b64decode\<close> is \<^verbatim>\<open>base64.b64decode(...).decode("utf-8")\<close>,
  \<open>None\<close> when it raises; \<^verbatim>\<open>decoded.split(":", 1)\<close> raises at the unpacking when
  there is no colon.
\<close>

definition verify_auth :: "(string \<Rightarrow> string option) \<Rightarrow> settings \<Rightarrow> string \<Rightarrow> bool" where
  "verify_auth b64decode cfg auth_header =
     (if take 6 auth_header \<noteq> ''Basic '' then False
      else (case b64decode (drop 6 auth_header) of
              None \<Rightarrow> False
            | Some decoded \<Rightarrow>
                if CHR '':'' \<notin> set decoded then False
                else
                  let username = takeWhile (\<lambda>c. c \<noteq> CHR '':'') decoded;
                      password = tl (dropWhile (\<lambda>c. c \<noteq> CHR '':'') decoded)
                  in username = ''Paycom'' \<and> password = payme_key cfg))"

text \<open>
  The parsed body \<^verbatim>\<open>{id, method, params}\<close>; a request whose body does not parse, or
  parses to a falsy value, has \<open>data = None\<close>.
\<close>

record rpc_request =
  rpc_request_id :: rpc_id
  rpc_method :: "string option"
  rpc_request_params :: rpc_params

record http_request =
  data :: "rpc_request option"
  authorization :: string

definition post :: "(string \<Rightarrow> string option) \<Rightarrow> settings \<Rightarrow> int \<Rightarrow> http_request \<Rightarrow> store
                      \<Rightarrow> response \<times> store" where
  "post b64decode cfg now req s =
     (case data req of
        None \<Rightarrow> (Error None ERROR_INVALID_JSON_RPC_OBJECT ''Invalid JSON-RPC object'' None, s)
      | Some d \<Rightarrow>
          let rpc = rpc_request_id d; params = rpc_request_params d in
          if payme_key cfg = [] then
            (Error rpc ERROR_INSUFFICIENT_PRIVILEGE ''Unauthorized'' None, s)
          else if \<not> verify_auth b64decode cfg (authorization req) then
            (Error rpc ERROR_INSUFFICIENT_PRIVILEGE ''Unauthorized'' None, s)
          else if rpc_method d = Some ''CheckPerformTransaction'' then
            (check_perform_transaction rpc params s, s)
          else if rpc_method d = Some ''CreateTransaction'' then
            create_transaction now rpc params s
          else if rpc_method d = Some ''PerformTransaction'' then
            perform_transaction now rpc params s
          else if rpc_method d = Some ''CancelTransaction'' then
            cancel_transaction now rpc params s
          else if rpc_method d = Some ''CheckTransaction'' then
            (check_transaction rpc params s, s)
          else if rpc_method d = Some ''GetStatement'' then
            (get_statement rpc params s, s)
          else
            (Error rpc ERROR_METHOD_NOT_FOUND
               (''Method not found: '' @ (case rpc_method d of None \<Rightarrow> ''None'' | Some m \<Rightarrow> m))
               None, s))"

section \<open>Click merchant API\<close>

definition CLICK_ERROR_SUCCESS :: int where "CLICK_ERROR_SUCCESS = 0"
definition CLICK_ERROR_ALREADY_PAID :: int where "CLICK_ERROR_ALREADY_PAID = - 4"
definition CLICK_ERROR_TRANSACTION_NOT_FOUND :: int where "CLICK_ERROR_TRANSACTION_NOT_FOUND = - 6"
definition CLICK_ERROR_TRANSACTION_CANCELLED :: int where "CLICK_ERROR_TRANSACTION_CANCELLED = - 9"

text \<open>
  \<^verbatim>\<open>_response(click_trans_id, merchant_trans_id, merchant_prepare_id, error, error_note)\<close>;
  \<open>ClickRaised\<close> is an exception that leaves the view (nothing in
  \<^verbatim>\<open>ClickCallbackView\<close> catches one).
\<close>

datatype click_response =
    ClickResponse int string int int string
  | ClickRaised

text \<open>\<^verbatim>\<open>_handle_prepare\<close>: \<open>ord\<close> is the order that \<^verbatim>\<open>post\<close> has read.\<close>

definition handle_prepare :: "order \<Rightarrow> int \<Rightarrow> string \<Rightarrow> int \<Rightarrow> store \<Rightarrow> click_response \<times> store" where
  "handle_prepare ord click_tid merchant_trans_id err s =
     (if status ord = Paid then
        (ClickResponse click_tid merchant_trans_id (order_id ord) CLICK_ERROR_ALREADY_PAID
           ''Already paid'', s)
      else if status ord = Cancelled then
        (ClickResponse click_tid merchant_trans_id (order_id ord)
           CLICK_ERROR_TRANSACTION_CANCELLED ''Order cancelled'', s)
      else
        (ClickResponse click_tid merchant_trans_id (order_id ord) CLICK_ERROR_SUCCESS ''Success'',
         save_order (ord\<lparr>click_trans_id := Some click_tid,
                          click_prepare_id := Some (order_id ord),
                          payment_method := ''click''\<rparr>) s))"

text \<open>\<^verbatim>\<open>_handle_complete\<close>\<close>

definition handle_complete :: "int \<Rightarrow> order \<Rightarrow> int \<Rightarrow> string \<Rightarrow> int \<Rightarrow> int \<Rightarrow> store
                                 \<Rightarrow> click_response \<times> store" where
  "handle_complete now ord click_tid merchant_trans_id merchant_prepare_id err s =
     (if err < 0 then
        (ClickResponse click_tid merchant_trans_id merchant_prepare_id
           CLICK_ERROR_TRANSACTION_CANCELLED ''Cancelled'',
         if status ord \<noteq> Paid then save_order (ord\<lparr>status := Cancelled, updated_at := now\<rparr>) s
         else s)
      else if status ord = Paid then
        (ClickResponse click_tid merchant_trans_id merchant_prepare_id CLICK_ERROR_ALREADY_PAID
           ''Already paid'', s)
      else if status ord = Cancelled then
        (ClickResponse click_tid merchant_trans_id merchant_prepare_id
           CLICK_ERROR_TRANSACTION_CANCELLED ''Order cancelled'', s)
      else if click_prepare_id ord \<noteq> Some merchant_prepare_id then
        (ClickResponse click_tid merchant_trans_id merchant_prepare_id
           CLICK_ERROR_TRANSACTION_NOT_FOUND ''Prepare ID mismatch'', s)
      else
        (case sync_participant (participant_id ord) True (Some now)
                (save_order (ord\<lparr>status := Paid, updated_at := now\<rparr>) s) of
           None \<Rightarrow> (ClickRaised, s)
         | Some s2 \<Rightarrow>
             (ClickResponse click_tid merchant_trans_id merchant_prepare_id CLICK_ERROR_SUCCESS
                ''Success'', s2)))"

section \<open>Order initiation and pay links\<close>

text \<open>
  \<^verbatim>\<open>str(n)\<close> of an integer, as the f-strings format it: the decimal digits of
  a non-negative number, most significant first, and a minus sign before those of the
  absolute value otherwise.
\<close>

function str_digits :: "int \<Rightarrow> string" where
  "str_digits n = (if n < 10 then [char_of (48 + n)]
                   else str_digits (n div 10) @ [char_of (48 + n mod 10)])"
  by pat_completeness auto
termination
  by (relation "measure nat") auto

definition str_int :: "int \<Rightarrow> string" where
  "str_int i = (if i < 0 then CHR ''-'' # str_digits (- i) else str_digits i)"

text \<open>
  \<^verbatim>\<open>generate_pay_link\<close>; \<open>None\<close> is the \<^verbatim>\<open>RuntimeError\<close> raised without a
  merchant id. \<open>b64encode\<close> is \<^verbatim>\<open>base64.b64encode\<close> on the UTF-8 bytes.
\<close>

definition generate_pay_link :: "(string \<Rightarrow> string) \<Rightarrow> settings \<Rightarrow> int \<Rightarrow> int \<Rightarrow> string option
                                   \<Rightarrow> string option" where
  "generate_pay_link b64encode cfg oid amount_tiyin return_url =
     (if \<not> truthy_str (PAYME_ID cfg) then None
      else
        let params = ''m='' @ the (PAYME_ID cfg) @ '';ac.order_id='' @ str_int oid
                       @ '';a='' @ str_int amount_tiyin;
            params1 = (if truthy_str return_url then params @ '';c='' @ the return_url else params)
        in Some (''https://checkout.paycom.uz'' @ ''/'' @ b64encode params1))"

text \<open>
  \<^verbatim>\<open>generate_click_pay_link\<close>; \<open>quote\<close> is \<^verbatim>\<open>urllib.parse.quote\<close>. A missing
  merchant id is formatted as \<^verbatim>\<open>None\<close>.
\<close>

definition generate_click_pay_link :: "(string \<Rightarrow> string) \<Rightarrow> settings \<Rightarrow> int \<Rightarrow> int \<Rightarrow> string option
                                         \<Rightarrow> string option" where
  "generate_click_pay_link quote cfg oid amount_sum return_url =
     (if \<not> truthy_str (CLICK_SERVICE_ID cfg) then None
      else
        let params = ''?service_id='' @ the (CLICK_SERVICE_ID cfg)
                       @ ''&merchant_id='' @ (case CLICK_MERCHANT_ID cfg of None \<Rightarrow> ''None'' | Some m \<Rightarrow> m)
                       @ ''&amount='' @ str_int amount_sum
                       @ ''&transaction_param='' @ str_int oid;
            params1 = (if truthy_str return_url then params @ ''&return_url='' @ quote (the return_url)
                       else params)
        in Some (''https://my.click.uz/services/pay'' @ params1))"

text \<open>
  \<^verbatim>\<open>JsonResponse({"success": False, "error": e}, status=c)\<close> is \<open>InitFailure c e\<close>;
  \<open>InitSuccess i a u\<close> is \<^verbatim>\<open>{"success": True, "order_id": i, "amount": a, "pay_url": u}\<close>,
  the amount before its conversion to float; \<open>InitRaised\<close> is the uncaught
  \<^verbatim>\<open>RuntimeError\<close> of the link generator.
\<close>

datatype init_response =
    InitFailure int string
  | InitSuccess int rat string
  | InitRaised

text \<open>
  \<^verbatim>\<open>Subject.objects.filter(id__in=subject_ids, olympiad__is_active=True, ticket_price__gt=0)\<close>
\<close>

definition selected_subjects :: "int list \<Rightarrow> store \<Rightarrow> subject list" where
  "selected_subjects subject_ids s =
     filter (\<lambda>x. subject_pk x \<in> set subject_ids
                 \<and> (case subject_olympiad x of None \<Rightarrow> False | Some ol \<Rightarrow> is_active ol)
                 \<and> ticket_price x > 0) (subjects s)"

text \<open>
  \<^verbatim>\<open>Order.objects.filter(participant=participant, status="pending").update(status="cancelled")\<close>
\<close>

definition cancel_pending :: "nat \<Rightarrow> store \<Rightarrow> store" where
  "cancel_pending pid s =
     s\<lparr>orders := map (\<lambda>x. if participant_id x = pid \<and> status x = Pending
                            then x\<lparr>status := Cancelled\<rparr> else x) (orders s)\<rparr>"

text \<open>
  \<^verbatim>\<open>Order.objects.create(participant=..., olympiad=subj.olympiad, subject=subj,
  total_amount=..., status="pending", payment_method=...)\<close>: the new row takes the next key
  and the current time, and is the newest of the table.
\<close>

definition create_order :: "int \<Rightarrow> nat \<Rightarrow> subject \<Rightarrow> rat \<Rightarrow> string \<Rightarrow> store \<Rightarrow> order \<times> store" where
  "create_order now pid subj amt method s =
     (let ord = \<lparr>order_id = next_order_id s, participant_id = pid,
                 olympiad_id = map_option olympiad_pk (subject_olympiad subj),
                 subject_id = Some (subject_pk subj), total_amount = amt,
                 status = Pending, payment_method = method,
                 created_at = now, updated_at = now,
                 payme_transaction_id = None, payme_create_time = None,
                 payme_perform_time = None, payme_cancel_time = None,
                 payme_state = None, payme_cancel_reason = None,
                 click_trans_id = None, click_prepare_id = None\<rparr>
      in (ord, s\<lparr>orders := ord # orders s, next_order_id := next_order_id s + 1\<rparr>))"

text \<open>The loops creating one order per subject at the subject's own price.\<close>

fun create_orders :: "int \<Rightarrow> nat \<Rightarrow> string \<Rightarrow> subject list \<Rightarrow> store \<Rightarrow> order list \<times> store" where
  "create_orders now pid method [] s = ([], s)"
| "create_orders now pid method (subj # rest) s =
     (let (ord, s1) = create_order now pid subj (ticket_price subj) method s;
          (ords, s2) = create_orders now pid method rest s1
      in (ord # ords, s2))"

text \<open>
  \<^verbatim>\<open>InitiatePaymentView.post\<close>. \<open>session_pid\<close> is
  \<^verbatim>\<open>request.session.get("participant_id")\<close>, \<open>subject_ids\<close> the list of the request
  body, \<open>ticket_uri\<close> the value of \<^verbatim>\<open>request.build_absolute_uri("/ticket/")\<close>. The
  view runs outside any transaction, so the orders stay when the link generator raises.
\<close>

definition initiate_payment :: "(string \<Rightarrow> string) \<Rightarrow> settings \<Rightarrow> int \<Rightarrow> string \<Rightarrow> nat option
                                  \<Rightarrow> int list \<Rightarrow> store \<Rightarrow> init_response \<times> store" where
  "initiate_payment b64encode cfg now ticket_uri session_pid subject_ids s =
     (case session_pid of
        None \<Rightarrow> (InitFailure 401 ''Unauthorized'', s)
      | Some pid \<Rightarrow>
     (case participants s pid of
        None \<Rightarrow> (InitFailure 404 ''Participant not found'', s)
      | Some p \<Rightarrow>
          if is_paid p then (InitFailure 400 ''Already paid'', s)
          else if subject_ids = [] then (InitFailure 400 ''No subjects selected'', s)
          else
            (case selected_subjects subject_ids s of
               [] \<Rightarrow> (InitFailure 404 ''Subjects not found'', s)
             | first_subj # rest \<Rightarrow>
                 let total = sum_list (map ticket_price (first_subj # rest));
                     s1 = cancel_pending pid s;
                     (first_order, s2) = create_order now pid first_subj total ''payme'' s1;
                     (others, s3) = create_orders now pid ''payme'' rest s2;
                     amount_tiyin = int_of_decimal (total * 100)
                 in (case generate_pay_link b64encode cfg (order_id first_order) amount_tiyin
                            (Some ticket_uri) of
                       None \<Rightarrow> (InitRaised, s3)
                     | Some pay_url \<Rightarrow> (InitSuccess (order_id first_order) total pay_url, s3)))))"

text \<open>
  \<^verbatim>\<open>InitiateClickPaymentView.post\<close>: every order, the first one too, is created in
  the loop with \<^verbatim>\<open>total_amount=subj.ticket_price\<close>.
\<close>

definition initiate_click_payment :: "(string \<Rightarrow> string) \<Rightarrow> settings \<Rightarrow> int \<Rightarrow> string \<Rightarrow> nat option
                                        \<Rightarrow> int list \<Rightarrow> store \<Rightarrow> init_response \<times> store" where
  "initiate_click_payment quote cfg now ticket_uri session_pid subject_ids s =
     (case session_pid of
        None \<Rightarrow> (InitFailure 401 ''Unauthorized'', s)
      | Some pid \<Rightarrow>
     (case participants s pid of
        None \<Rightarrow> (InitFailure 404 ''Participant not found'', s)
      | Some p \<Rightarrow>
          if is_paid p then (InitFailure 400 ''Already paid'', s)
          else if subject_ids = [] then (InitFailure 400 ''No subjects selected'', s)
          else
            (case selected_subjects subject_ids s of
               [] \<Rightarrow> (InitFailure 404 ''Subjects not found'', s)
             | first_subj # rest \<Rightarrow>
                 let total = sum_list (map ticket_price (first_subj # rest));
                     s1 = cancel_pending pid s;
                     (created, s2) = create_orders now pid ''click'' (first_subj # rest) s1;
                     amount_sum = int_of_decimal total
                 in (case created of
                       [] \<Rightarrow> (InitRaised, s2)
                     | first_order # others \<Rightarrow>
                         (case generate_click_pay_link quote cfg (order_id first_order) amount_sum
                                 (Some ticket_uri) of
                            None \<Rightarrow> (InitRaised, s2)
                          | Some pay_url \<Rightarrow>
                              (InitSuccess (order_id first_order) total pay_url, s2))))))"

section \<open>Lifecycle invariant and example data\<close>

text \<open>
  What Create, Perform and Cancel maintain between them for every order: a positive
  \<^verbatim>\<open>payme_perform_time\<close> is stored only on an order that is bound to a transaction and
  is in state 2 or -2.
\<close>

definition payme_consistent :: "order \<Rightarrow> bool" where
  "payme_consistent ord =
     (or_else (payme_perform_time ord) 0 > 0 \<longrightarrow>
        truthy_str (payme_transaction_id ord) \<and>
        (payme_state ord = Some 2 \<or> payme_state ord = Some (- 2)))"

text \<open>
  A pending order of 50000.00 sum, a buyer, a catalogue of two priced subjects of an active
  olympiad, and merchant settings, used to run the operations on concrete inputs.
\<close>

definition example_order :: order where
  "example_order =
     \<lparr>order_id = 1, participant_id = 7, olympiad_id = Some 1, subject_id = Some 1,
      total_amount = 50000, status = Pending, payment_method = ''payme'',
      created_at = 1700000000000, updated_at = 1700000000000,
      payme_transaction_id = None, payme_create_time = None, payme_perform_time = None,
      payme_cancel_time = None, payme_state = None, payme_cancel_reason = None,
      click_trans_id = None, click_prepare_id = None\<rparr>"

definition example_subjects :: "subject list" where
  "example_subjects =
     [\<lparr>subject_pk = 1, subject_olympiad = Some \<lparr>olympiad_pk = 1, is_active = True\<rparr>,
       ticket_price = 100\<rparr>,
      \<lparr>subject_pk = 2, subject_olympiad = Some \<lparr>olympiad_pk = 1, is_active = True\<rparr>,
       ticket_price = 200\<rparr>]"

definition example_store :: store where
  "example_store =
     \<lparr>orders = [example_order],
      participants = [7 \<mapsto> \<lparr>is_paid = False, paid_at = None\<rparr>],
      subjects = example_subjects,
      next_order_id = 2\<rparr>"

definition example_params :: rpc_params where
  "example_params =
     \<lparr>account_order_id = Some 1, amount = Some 5000000, transaction_id = Some ''tx-1'',
      time = Some 1700000000500, reason = None, from_ts = None, to_ts = None\<rparr>"

definition example_settings :: settings where
  "example_settings =
     \<lparr>PAYME_ID = Some ''merchant'', PAYME_KEY = Some ''secret'',
      CLICK_SERVICE_ID = Some ''77'', CLICK_MERCHANT_ID = Some ''5''\<rparr>"

section \<open>Auxiliary facts about the store\<close>

lemma find_map_update:
  "find (\<lambda>x. order_id x = i) xs = Some x0 \<Longrightarrow> order_id y = i \<Longrightarrow>
   find (\<lambda>x. order_id x = i) (map (\<lambda>x. if order_id x = i then y else x) xs) = Some y"
  by (induction xs) (auto split: if_splits)

lemma order_by_id_save_order:
  "order_by_id s i = Some x0 \<Longrightarrow> order_id y = i \<Longrightarrow> order_by_id (save_order y s) i = Some y"
  by (simp add: order_by_id_def save_order_def find_map_update)

lemma find_tx_order_id:
  "find (\<lambda>x. payme_transaction_id x = Some t) xs = Some x0 \<Longrightarrow>
   \<exists>x1. find (\<lambda>x. order_id x = order_id x0) xs = Some x1"
  by (induction xs) (auto split: if_splits)

lemma order_by_transaction_order_by_id:
  "order_by_transaction s t = Some x0 \<Longrightarrow> \<exists>x1. order_by_id s (order_id x0) = Some x1"
  by (simp add: order_by_id_def order_by_transaction_def find_tx_order_id)

lemma find_tx_map_update:
  "find (\<lambda>x. payme_transaction_id x = Some t) xs = Some x0 \<Longrightarrow>
   order_id y = i \<Longrightarrow> order_id x0 = i \<Longrightarrow> payme_transaction_id y = Some t \<Longrightarrow>
   find (\<lambda>x. payme_transaction_id x = Some t) (map (\<lambda>x. if order_id x = i then y else x) xs) = Some y"
  by (induction xs) (auto split: if_splits)

lemma order_by_transaction_save_order:
  "order_by_transaction s t = Some x0 \<Longrightarrow> order_id y = order_id x0 \<Longrightarrow>
   payme_transaction_id y = Some t \<Longrightarrow> order_by_transaction (save_order y s) t = Some y"
  by (simp add: order_by_transaction_def save_order_def find_tx_map_update)

lemma int_of_decimal_of_int: "int_of_decimal (of_int k) = k"
proof -
  have "- (of_int k :: rat) = of_int (- k)" by simp
  then have "\<lfloor>- (of_int k :: rat)\<rfloor> = - k" by (simp only: floor_of_int)
  then show ?thesis by (simp add: int_of_decimal_def)
qed

lemma int_of_decimal_two_places:
  assumes "two_decimal_places d"
  shows "(a = int_of_decimal (d * 100)) = (of_int a = d * 100)"
proof -
  from assms have eq: "d * 100 = of_int \<lfloor>d * 100\<rfloor>"
    unfolding two_decimal_places_def by (rule sym)
  have "int_of_decimal (d * 100) = \<lfloor>d * 100\<rfloor>"
    by (subst eq) (rule int_of_decimal_of_int)
  moreover have "(of_int a = d * 100) = (a = \<lfloor>d * 100\<rfloor>)"
    by (subst eq) (simp only: of_int_eq_iff)
  ultimately show ?thesis by simp
qed

lemma order_by_id_order_id: "order_by_id s i = Some x \<Longrightarrow> order_id x = i"
  by (auto simp add: order_by_id_def find_Some_iff)

lemma order_by_transaction_id:
  "order_by_transaction s t = Some x \<Longrightarrow> payme_transaction_id x = Some t"
  by (auto simp add: order_by_transaction_def find_Some_iff)

lemma sync_participant_Some:
  "participants s pid = Some p \<Longrightarrow>
   sync_participant pid paid stamp s =
     Some (s\<lparr>participants := (participants s)(pid \<mapsto> p\<lparr>is_paid := paid, paid_at := stamp\<rparr>)\<rparr>)"
  by (simp add: sync_participant_def)

lemma participants_save_order [simp]: "participants (save_order y s) = participants s"
  by (simp add: save_order_def)

lemma order_by_id_participants_update [simp]:
  "order_by_id (s\<lparr>participants := m\<rparr>) i = order_by_id s i"
  by (simp add: order_by_id_def)

lemma order_by_transaction_participants_update [simp]:
  "order_by_transaction (s\<lparr>participants := m\<rparr>) t = order_by_transaction s t"
  by (simp add: order_by_transaction_def)

section \<open>CheckPerformTransaction: exact amount\<close>

text \<open>
  Claim C4. For a pending order whose total has two decimal places, CheckPerformTransaction
  answers with the allow signal exactly when the amount sent, in tiyin, is the total times
  100 as an integer, and with the invalid-amount fault -31001 for every other integer
  amount.
\<close>

theorem check_perform_amount_exact:
  assumes "account_order_id params = Some oid" and "amount params = Some a"
    and "order_by_id s oid = Some ord" and "status ord = Pending"
    and "two_decimal_places (total_amount ord)"
  shows "check_perform_transaction rpc params s =
           (if of_int a = total_amount ord * 100 then Success rpc (Allow True)
            else Error rpc (- 31001) ''Invalid amount'' (Some ''amount''))"
  using assms int_of_decimal_two_places [of "total_amount ord" a]
  by (simp add: check_perform_transaction_def expected_amount_tiyin_def ERROR_INVALID_AMOUNT_def)

text \<open>
  The order of 50000.00 sum: 5000000 tiyin is accepted, 50000 and 5000001 are rejected.
\<close>

theorem check_perform_amount_exact_witness:
  "order_by_id example_store 1 = Some example_order \<and> status example_order = Pending \<and>
   two_decimal_places (total_amount example_order) \<and> total_amount example_order = 50000 \<and>
   check_perform_transaction None (example_params\<lparr>amount := Some 5000000\<rparr>) example_store
     = Success None (Allow True) \<and>
   check_perform_transaction None (example_params\<lparr>amount := Some 50000\<rparr>) example_store
     = Error None (- 31001) ''Invalid amount'' (Some ''amount'') \<and>
   check_perform_transaction None (example_params\<lparr>amount := Some 5000001\<rparr>) example_store
     = Error None (- 31001) ''Invalid amount'' (Some ''amount'')"
proof -
  have h: "order_by_id example_store 1 = Some example_order"
    by (simp add: order_by_id_def example_store_def example_order_def)
  have p: "status example_order = Pending" "two_decimal_places (total_amount example_order)"
    by (simp_all add: example_order_def two_decimal_places_def)
  have t: "total_amount example_order = 50000" by (simp add: example_order_def)
  have o: "\<And>a. account_order_id (example_params\<lparr>amount := Some a\<rparr>) = Some 1"
       "\<And>a. amount (example_params\<lparr>amount := Some a\<rparr>) = Some a"
    by (simp_all add: example_params_def)
  show ?thesis
    using check_perform_amount_exact [OF o(1) [of 5000000] o(2) [of 5000000] h p, of None]
          check_perform_amount_exact [OF o(1) [of 50000] o(2) [of 50000] h p, of None]
          check_perform_amount_exact [OF o(1) [of 5000001] o(2) [of 5000001] h p, of None]
          h p t
    by simp
qed

section \<open>The shared secret is required\<close>

text \<open>
  Claim C10. When PAYME_KEY is unset or empty, every request whose body parses to a
  JSON-RPC object is answered with the insufficient-privilege fault -32504 under the
  request's id, whatever the Authorization header and the method are, and the store is
  left as it was.
\<close>

theorem post_without_key:
  assumes "PAYME_KEY cfg = None \<or> PAYME_KEY cfg = Some []" and "data req = Some d"
  shows "post b64decode cfg now req s =
           (Error (rpc_request_id d) (- 32504) ''Unauthorized'' None, s)"
  using assms
  by (auto simp add: post_def payme_key_def strip_def ERROR_INSUFFICIENT_PRIVILEGE_def)

text \<open>
  A CreateTransaction request whose header decodes to \<^verbatim>\<open>Paycom:\<close>, the credentials
  that match an empty key, is still refused.
\<close>

theorem post_without_key_witness:
  "PAYME_KEY (example_settings\<lparr>PAYME_KEY := None\<rparr>) = None \<and>
   verify_auth (\<lambda>x. Some ''Paycom:'') (example_settings\<lparr>PAYME_KEY := None\<rparr>) ''Basic UGF5Y29tOg=='' \<and>
   post (\<lambda>x. Some ''Paycom:'') (example_settings\<lparr>PAYME_KEY := None\<rparr>) 1700000001000
     \<lparr>data = Some \<lparr>rpc_request_id = Some 3, rpc_method = Some ''CreateTransaction'',
                    rpc_request_params = example_params\<rparr>,
      authorization = ''Basic UGF5Y29tOg==''\<rparr> example_store
   = (Error (Some 3) (- 32504) ''Unauthorized'' None, example_store)"
  using post_without_key [of "example_settings\<lparr>PAYME_KEY := None\<rparr>"
      "\<lparr>data = Some \<lparr>rpc_request_id = Some 3, rpc_method = Some ''CreateTransaction'',
                    rpc_request_params = example_params\<rparr>,
      authorization = ''Basic UGF5Y29tOg==''\<rparr>"
      "\<lparr>rpc_request_id = Some 3, rpc_method = Some ''CreateTransaction'',
                    rpc_request_params = example_params\<rparr>"
      "\<lambda>x. Some ''Paycom:''" 1700000001000 example_store]
  by (simp add: verify_auth_def payme_key_def strip_def example_settings_def)

section \<open>Click Complete with a wrong prepare id\<close>

text \<open>
  Claim C9. A Complete callback with a non-negative error code, on an order that is neither
  paid nor cancelled, whose prepare id is not the one stored on the order, is answered with
  the transaction-not-found fault -6 and writes nothing: the store, hence the order's status
  and the buyer's is_paid and paid_at, is the one before the call.
\<close>

theorem complete_prepare_mismatch:
  assumes "0 \<le> err" and "status ord \<noteq> Paid" and "status ord \<noteq> Cancelled"
    and "click_prepare_id ord \<noteq> Some merchant_prepare_id"
  shows "handle_complete now ord click_tid merchant_trans_id merchant_prepare_id err s =
           (ClickResponse click_tid merchant_trans_id merchant_prepare_id (- 6)
              ''Prepare ID mismatch'', s)"
  using assms
  by (simp add: handle_complete_def CLICK_ERROR_TRANSACTION_NOT_FOUND_def)

text \<open>
  Prepare on the example order stores prepare id 1; Complete with prepare id 2 is refused
  and the order stays pending, the buyer unpaid.
\<close>

theorem complete_prepare_mismatch_witness:
  "\<exists>s1 ord1.
     handle_prepare example_order 555 ''1'' 0 example_store =
       (ClickResponse 555 ''1'' 1 0 ''Success'', s1) \<and>
     order_by_id s1 1 = Some ord1 \<and> click_prepare_id ord1 = Some 1 \<and>
     status ord1 = Pending \<and>
     handle_complete 1700000001000 ord1 555 ''1'' 2 0 s1 =
       (ClickResponse 555 ''1'' 2 (- 6) ''Prepare ID mismatch'', s1) \<and>
     participants s1 7 = Some \<lparr>is_paid = False, paid_at = None\<rparr>"
proof -
  let ?ord1 = "example_order\<lparr>click_trans_id := Some 555, click_prepare_id := Some (order_id example_order),
                 payment_method := ''click''\<rparr>"
  let ?s1 = "save_order ?ord1 example_store"
  have a: "handle_prepare example_order 555 ''1'' 0 example_store =
             (ClickResponse 555 ''1'' 1 0 ''Success'', ?s1)"
    by (simp add: handle_prepare_def example_order_def CLICK_ERROR_SUCCESS_def)
  have b: "order_by_id ?s1 1 = Some ?ord1"
    by (simp add: order_by_id_def save_order_def example_store_def example_order_def)
  have c: "status ?ord1 \<noteq> Paid" "status ?ord1 \<noteq> Cancelled" "click_prepare_id ?ord1 \<noteq> Some 2"
          "click_prepare_id ?ord1 = Some 1" "status ?ord1 = Pending"
    by (simp_all add: example_order_def)
  have d: "participants ?s1 7 = Some \<lparr>is_paid = False, paid_at = None\<rparr>"
    by (simp add: example_store_def)
  have e: "(0::int) \<le> 0" by simp
  from complete_prepare_mismatch [OF e c(1) c(2) c(3), of 1700000001000 555 "''1''" ?s1] a b c d
  show ?thesis by blast
qed

section \<open>Perform on a cancelled transaction\<close>

text \<open>
  Claim C6. When the order bound to the transaction is in state -1 or -2, or has status
  cancelled, PerformTransaction writes nothing (the store is unchanged, so the order and the
  buyer's is_paid and paid_at are), and it answers with the stored cancel_time (0 when none
  is stored) and the stored state.
\<close>

theorem perform_on_cancelled:
  assumes "transaction_id params = Some tid" and "tid \<noteq> []"
    and "order_by_transaction s tid = Some ord"
    and "payme_state ord = Some (- 1) \<or> payme_state ord = Some (- 2) \<or> status ord = Cancelled"
  shows "snd (perform_transaction now rpc params s) = s \<and>
         (\<forall>st. payme_state ord = Some st \<longrightarrow>
            fst (perform_transaction now rpc params s) =
              Success rpc (CancelResult (case payme_cancel_time ord of None \<Rightarrow> 0 | Some c \<Rightarrow> c)
                             tid st))"
  using assms
  by (auto simp add: perform_transaction_def truthy_str_def in_cancelled_states_def or_else_def
           split: option.splits)

text \<open>A transaction cancelled before it was performed.\<close>

theorem perform_on_cancelled_witness:
  "perform_transaction 1700000009000 (Some 4) example_params
     (example_store\<lparr>orders := [example_order\<lparr>status := Cancelled,
         payme_transaction_id := Some ''tx-1'', payme_create_time := Some 1700000000500,
         payme_perform_time := Some 0, payme_cancel_time := Some 1700000002000,
         payme_state := Some (- 1), payme_cancel_reason := Some 3\<rparr>]\<rparr>)
   = (Success (Some 4) (CancelResult 1700000002000 ''tx-1'' (- 1)),
      example_store\<lparr>orders := [example_order\<lparr>status := Cancelled,
         payme_transaction_id := Some ''tx-1'', payme_create_time := Some 1700000000500,
         payme_perform_time := Some 0, payme_cancel_time := Some 1700000002000,
         payme_state := Some (- 1), payme_cancel_reason := Some 3\<rparr>]\<rparr>)"
proof -
  let ?ord = "example_order\<lparr>status := Cancelled,
         payme_transaction_id := Some ''tx-1'', payme_create_time := Some 1700000000500,
         payme_perform_time := Some 0, payme_cancel_time := Some 1700000002000,
         payme_state := Some (- 1), payme_cancel_reason := Some 3\<rparr>"
  let ?s = "example_store\<lparr>orders := [?ord]\<rparr>"
  have a: "transaction_id example_params = Some ''tx-1''" "''tx-1'' \<noteq> []"
    by (simp_all add: example_params_def)
  have b: "order_by_transaction ?s ''tx-1'' = Some ?ord"
    by (simp add: order_by_transaction_def)
  have c: "payme_state ?ord = Some (- 1) \<or> payme_state ?ord = Some (- 2) \<or> status ?ord = Cancelled"
    by simp
  from perform_on_cancelled [OF a b c, of 1700000009000 "Some 4"]
  show ?thesis by (simp add: prod_eq_iff)
qed

text \<open>
  \<^verbatim>\<open>int(order.payme_state)\<close> has no fallback: for an order with status cancelled and
  no state stored the handler raises, and the answer is the internal fault, still without
  a write.
\<close>

lemma perform_on_cancelled_without_state:
  assumes "transaction_id params = Some tid" and "tid \<noteq> []"
    and "order_by_transaction s tid = Some ord"
    and "status ord = Cancelled" and "payme_state ord = None"
  shows "perform_transaction now rpc params s =
           (Error rpc (- 32400) ''Internal server error'' None, s)"
  using assms
  by (simp add: perform_transaction_def truthy_str_def in_cancelled_states_def
                internal_error_def ERROR_INTERNAL_SERVER_def)

lemma or_else_positive: "(0 < or_else x 0) = (\<exists>t. x = Some t \<and> 0 < t)"
  by (auto simp add: or_else_def split: option.splits)

section \<open>First cancellation\<close>

text \<open>
  Claim C5. For a transaction that is not yet cancelled (status not cancelled, state neither
  -1 nor -2), with was_performed standing for "a positive perform_time is stored, or the
  state is 2, or the order is paid": CancelTransaction answers with cancel_time = now and
  the new state, and stores status cancelled, cancel_time = now and the reason given, or 5
  if was_performed and 3 otherwise when none is given. If was_performed the state becomes
  -2, the stored perform_time is kept and the buyer gets is_paid = false and no paid_at;
  otherwise the state becomes -1, perform_time becomes 0 and the buyer is not touched.
\<close>

theorem cancel_first:
  assumes tid: "transaction_id params = Some tid" "tid \<noteq> []"
    and ord: "order_by_transaction s tid = Some ord"
    and live: "status ord \<noteq> Cancelled" "payme_state ord \<noteq> Some (- 1)"
              "payme_state ord \<noteq> Some (- 2)"
    and buyer: "participants s (participant_id ord) = Some p"
    and wp: "was_performed = ((\<exists>t. payme_perform_time ord = Some t \<and> 0 < t)
                               \<or> payme_state ord = Some 2 \<or> status ord = Paid)"
  shows "\<exists>s' ord'.
           cancel_transaction now rpc params s =
             (Success rpc (CancelResult now tid (if was_performed then - 2 else - 1)), s') \<and>
           order_by_transaction s' tid = Some ord' \<and>
           order_by_id s' (order_id ord) = Some ord' \<and>
           status ord' = Cancelled \<and>
           payme_state ord' = Some (if was_performed then - 2 else - 1) \<and>
           payme_perform_time ord' = (if was_performed then payme_perform_time ord else Some 0) \<and>
           payme_cancel_time ord' = Some now \<and>
           payme_cancel_reason ord' =
             Some (case reason params of Some r \<Rightarrow> r | None \<Rightarrow> if was_performed then 5 else 3) \<and>
           participants s' (participant_id ord) =
             Some (if was_performed then p\<lparr>is_paid := False, paid_at := None\<rparr> else p)"
proof -
  let ?state = "if was_performed then - 2 else - 1 :: int"
  let ?reason = "case reason params of None \<Rightarrow> (if was_performed then 5 else 3) | Some r \<Rightarrow> r"
  let ?ord1 = "ord\<lparr>status := Cancelled, payme_state := Some ?state,
                   payme_cancel_time := Some now, payme_cancel_reason := Some ?reason,
                   payme_perform_time := (if \<not> was_performed then Some 0 else payme_perform_time ord),
                   updated_at := now\<rparr>"
  let ?s1 = "save_order ?ord1 s"
  let ?s2 = "?s1\<lparr>participants := (participants ?s1)(participant_id ord \<mapsto>
                      p\<lparr>is_paid := False, paid_at := None\<rparr>)\<rparr>"
  let ?s' = "if was_performed then ?s2 else ?s1"
  from ord obtain x1 where x1: "order_by_id s (order_id ord) = Some x1"
    using order_by_transaction_order_by_id by blast
  have txid: "payme_transaction_id ord = Some tid"
    using ord by (rule order_by_transaction_id)
  have wpT: "(0 < or_else (payme_perform_time ord) 0
               \<or> payme_state ord = Some 2 \<or> status ord = Paid) = was_performed"
    by (simp add: wp or_else_positive)
  have sync: "\<And>y. sync_participant (participant_id ord) False None (save_order y s) =
                Some ((save_order y s)\<lparr>participants := (participants s)(participant_id ord \<mapsto>
                        p\<lparr>is_paid := False, paid_at := None\<rparr>)\<rparr>)"
    using buyer by (simp add: sync_participant_def)
  have run: "cancel_transaction now rpc params s = (Success rpc (CancelResult now tid ?state), ?s')"
    using tid ord live
    by (cases was_performed)
       (simp_all add: cancel_transaction_def truthy_str_def in_cancelled_states_def Let_def wpT sync)
  have f1: "order_by_transaction ?s1 tid = Some ?ord1"
    using ord by (rule order_by_transaction_save_order) (simp_all add: txid)
  have f2: "order_by_id ?s1 (order_id ord) = Some ?ord1"
    using x1 by (rule order_by_id_save_order) simp
  have g1: "order_by_transaction ?s' tid = Some ?ord1"
    using f1 by (cases was_performed) simp_all
  have g2: "order_by_id ?s' (order_id ord) = Some ?ord1"
    using f2 by (cases was_performed) simp_all
  have g3: "participants ?s' (participant_id ord) =
              Some (if was_performed then p\<lparr>is_paid := False, paid_at := None\<rparr> else p)"
    using buyer by (cases was_performed) simp_all
  have g4: "payme_cancel_reason ?ord1 =
             Some (case reason params of Some r \<Rightarrow> r | None \<Rightarrow> if was_performed then 5 else 3)"
    by (simp split: option.splits)
  have g5: "status ?ord1 = Cancelled" "payme_state ?ord1 = Some ?state"
           "payme_perform_time ?ord1 = (if was_performed then payme_perform_time ord else Some 0)"
           "payme_cancel_time ?ord1 = Some now"
    by simp_all
  from run g1 g2 g5 g4 g3 show ?thesis by blast
qed


text \<open>
  A paid order performed at 1700000001000 goes to -2 and keeps that perform_time, its buyer
  is no longer paid; an order that was only created goes to -1 with perform_time 0.
\<close>

theorem cancel_first_witness:
  "(\<exists>s' ord'.
      cancel_transaction 1700000005000 (Some 5) example_params
        (example_store\<lparr>orders := [example_order\<lparr>status := Paid,
            payme_transaction_id := Some ''tx-1'', payme_create_time := Some 1700000000500,
            payme_perform_time := Some 1700000001000, payme_state := Some 2\<rparr>],
          participants := [7 \<mapsto> \<lparr>is_paid = True, paid_at = Some 1700000001000\<rparr>]\<rparr>)
        = (Success (Some 5) (CancelResult 1700000005000 ''tx-1'' (- 2)), s') \<and>
      order_by_id s' 1 = Some ord' \<and> status ord' = Cancelled \<and>
      payme_state ord' = Some (- 2) \<and> payme_perform_time ord' = Some 1700000001000 \<and>
      payme_cancel_time ord' = Some 1700000005000 \<and> payme_cancel_reason ord' = Some 5 \<and>
      participants s' 7 = Some \<lparr>is_paid = False, paid_at = None\<rparr>) \<and>
   (\<exists>s' ord'.
      cancel_transaction 1700000005000 (Some 5) example_params
        (example_store\<lparr>orders := [example_order\<lparr>
            payme_transaction_id := Some ''tx-1'', payme_create_time := Some 1700000000500,
            payme_state := Some 1\<rparr>]\<rparr>)
        = (Success (Some 5) (CancelResult 1700000005000 ''tx-1'' (- 1)), s') \<and>
      order_by_id s' 1 = Some ord' \<and> status ord' = Cancelled \<and>
      payme_state ord' = Some (- 1) \<and> payme_perform_time ord' = Some 0 \<and>
      payme_cancel_time ord' = Some 1700000005000 \<and> payme_cancel_reason ord' = Some 3 \<and>
      participants s' 7 = Some \<lparr>is_paid = False, paid_at = None\<rparr>)"
proof -
  let ?paid = "example_order\<lparr>status := Paid,
            payme_transaction_id := Some ''tx-1'', payme_create_time := Some 1700000000500,
            payme_perform_time := Some 1700000001000, payme_state := Some 2\<rparr>"
  let ?s = "example_store\<lparr>orders := [?paid],
              participants := [7 \<mapsto> \<lparr>is_paid = True, paid_at = Some 1700000001000\<rparr>]\<rparr>"
  let ?fresh = "example_order\<lparr>
            payme_transaction_id := Some ''tx-1'', payme_create_time := Some 1700000000500,
            payme_state := Some 1\<rparr>"
  let ?t = "example_store\<lparr>orders := [?fresh]\<rparr>"
  have a: "transaction_id example_params = Some ''tx-1''" "''tx-1'' \<noteq> []"
    by (simp_all add: example_params_def)
  have r: "reason example_params = None" by (simp add: example_params_def)
  have b: "order_by_transaction ?s ''tx-1'' = Some ?paid"
    by (simp add: order_by_transaction_def)
  have c: "status ?paid \<noteq> Cancelled" "payme_state ?paid \<noteq> Some (- 1)"
          "payme_state ?paid \<noteq> Some (- 2)"
    by simp_all
  have d: "participants ?s (participant_id ?paid) = Some \<lparr>is_paid = True, paid_at = Some 1700000001000\<rparr>"
    by (simp add: example_order_def)
  have e: "True = ((\<exists>t. payme_perform_time ?paid = Some t \<and> 0 < t)
                    \<or> payme_state ?paid = Some 2 \<or> status ?paid = Paid)"
    by simp
  have i: "order_id ?paid = 1" "participant_id ?paid = 7" "order_id ?fresh = 1"
          "participant_id ?fresh = 7" "payme_perform_time ?paid = Some 1700000001000"
    by (simp_all add: example_order_def)
  have b': "order_by_transaction ?t ''tx-1'' = Some ?fresh"
    by (simp add: order_by_transaction_def)
  have c': "status ?fresh \<noteq> Cancelled" "payme_state ?fresh \<noteq> Some (- 1)"
           "payme_state ?fresh \<noteq> Some (- 2)"
    by (simp_all add: example_order_def)
  have d': "participants ?t (participant_id ?fresh) = Some \<lparr>is_paid = False, paid_at = None\<rparr>"
    by (simp add: example_order_def example_store_def)
  have e': "False = ((\<exists>t. payme_perform_time ?fresh = Some t \<and> 0 < t)
                    \<or> payme_state ?fresh = Some 2 \<or> status ?fresh = Paid)"
    by (simp add: example_order_def)
  have first: "\<exists>s' ord'.
      cancel_transaction 1700000005000 (Some 5) example_params ?s
        = (Success (Some 5) (CancelResult 1700000005000 ''tx-1'' (- 2)), s') \<and>
      order_by_id s' 1 = Some ord' \<and> status ord' = Cancelled \<and>
      payme_state ord' = Some (- 2) \<and> payme_perform_time ord' = Some 1700000001000 \<and>
      payme_cancel_time ord' = Some 1700000005000 \<and> payme_cancel_reason ord' = Some 5 \<and>
      participants s' 7 = Some \<lparr>is_paid = False, paid_at = None\<rparr>"
    using cancel_first [OF a b c d e, of 1700000005000 "Some 5"]
    by (simp only: i r if_True option.case participant.simps) blast
  have second: "\<exists>s' ord'.
      cancel_transaction 1700000005000 (Some 5) example_params ?t
        = (Success (Some 5) (CancelResult 1700000005000 ''tx-1'' (- 1)), s') \<and>
      order_by_id s' 1 = Some ord' \<and> status ord' = Cancelled \<and>
      payme_state ord' = Some (- 1) \<and> payme_perform_time ord' = Some 0 \<and>
      payme_cancel_time ord' = Some 1700000005000 \<and> payme_cancel_reason ord' = Some 3 \<and>
      participants s' 7 = Some \<lparr>is_paid = False, paid_at = None\<rparr>"
    using cancel_first [OF a b' c' d' e', of 1700000005000 "Some 5"]
    by (simp only: i r if_False option.case) blast
  from first second show ?thesis by blast
qed

section \<open>Replaying Create\<close>

text \<open>
  After a CreateTransaction that has bound a transaction to an order and stored a
  create_time other than 0, a second CreateTransaction for the same order, amount and
  transaction id, whatever its own time parameter and whenever it arrives, answers with
  the create_time and the state 1 that the first call stored and returned, and leaves the
  store, hence the order's transaction id, create_time and state, unchanged.
\<close>

lemma create_replay:
  assumes p1: "account_order_id p1 = Some oid"
    and ord: "order_by_id s oid = Some ord"
    and unbound: "\<not> truthy_str (payme_transaction_id ord)"
    and first: "create_transaction now1 rpc1 p1 s = (Success rpc1 r1, s1)"
    and p2: "account_order_id p2 = Some oid" "amount p2 = amount p1"
            "transaction_id p2 = transaction_id p1"
    and nz: "(case time p1 of None \<Rightarrow> now1 | Some t \<Rightarrow> t) \<noteq> 0"
  shows "\<exists>ct tid ord1.
           r1 = CreateResult ct tid 1 \<and>
           order_by_id s1 oid = Some ord1 \<and>
           payme_transaction_id ord1 = Some tid \<and> payme_create_time ord1 = Some ct \<and>
           payme_state ord1 = Some 1 \<and>
           create_transaction now2 rpc2 p2 s1 = (Success rpc2 (CreateResult ct tid 1), s1)"
proof -
  let ?ct = "case time p1 of None \<Rightarrow> now1 | Some t \<Rightarrow> t"
  from first p1 ord unbound obtain a tid where
    a: "amount p1 = Some a" "a = expected_amount_tiyin ord" and
    t: "transaction_id p1 = Some tid" "tid \<noteq> []" and
    st: "status ord \<noteq> Paid" "status ord \<noteq> Cancelled" and
    r1: "r1 = CreateResult ?ct tid 1" and
    s1: "s1 = save_order (ord\<lparr>payme_transaction_id := Some tid,
                              payme_create_time := Some ?ct, payme_state := Some 1\<rparr>) s"
    by (auto simp add: create_transaction_def Let_def truthy_str_def
             split: option.splits if_splits)
  let ?ord1 = "ord\<lparr>payme_transaction_id := Some tid,
                    payme_create_time := Some ?ct, payme_state := Some 1\<rparr>"
  have oid: "order_id ord = oid" using ord by (rule order_by_id_order_id)
  have found: "order_by_id s1 oid = Some ?ord1"
    unfolding s1 using ord by (rule order_by_id_save_order) (simp add: oid)
  have exp: "expected_amount_tiyin ?ord1 = expected_amount_tiyin ord"
    by (simp add: expected_amount_tiyin_def)
  have again: "create_transaction now2 rpc2 p2 s1 = (Success rpc2 (CreateResult ?ct tid 1), s1)"
    using p2 a t st found exp nz
    by (simp add: create_transaction_def Let_def truthy_str_def or_else_def)
  from r1 found again show ?thesis by simp
qed

text \<open>
  The replay carries another time, or none; the answer is the one of the first call.
\<close>

lemma create_replay_example:
  "\<exists>s1. create_transaction 1700000000700 (Some 1) example_params example_store =
           (Success (Some 1) (CreateResult 1700000000500 ''tx-1'' 1), s1) \<and>
         create_transaction 1700000009000 (Some 2)
           (example_params\<lparr>time := Some 1700000008000\<rparr>) s1 =
           (Success (Some 2) (CreateResult 1700000000500 ''tx-1'' 1), s1) \<and>
         create_transaction 1700000009500 (Some 3) (example_params\<lparr>time := None\<rparr>) s1 =
           (Success (Some 3) (CreateResult 1700000000500 ''tx-1'' 1), s1)"
proof -
  let ?s1 = "save_order (example_order\<lparr>payme_transaction_id := Some ''tx-1'',
               payme_create_time := Some 1700000000500, payme_state := Some 1\<rparr>) example_store"
  have ord: "order_by_id example_store 1 = Some example_order"
    by (simp add: order_by_id_def example_store_def example_order_def)
  have p1: "account_order_id example_params = Some 1" by (simp add: example_params_def)
  have unbound: "\<not> truthy_str (payme_transaction_id example_order)"
    by (simp add: truthy_str_def example_order_def)
  have amt: "expected_amount_tiyin example_order = 5000000"
    by (simp add: expected_amount_tiyin_def int_of_decimal_def example_order_def)
  have first: "create_transaction 1700000000700 (Some 1) example_params example_store =
                 (Success (Some 1) (CreateResult 1700000000500 ''tx-1'' 1), ?s1)"
    using ord amt
    by (simp add: create_transaction_def example_params_def truthy_str_def Let_def)
       (simp add: example_order_def)
  have nz: "(case time example_params of None \<Rightarrow> 1700000000700 | Some t \<Rightarrow> t) \<noteq> (0::int)"
    by (simp add: example_params_def)
  have p2: "\<And>x. account_order_id (example_params\<lparr>time := x\<rparr>) = Some 1"
           "\<And>x. amount (example_params\<lparr>time := x\<rparr>) = amount example_params"
           "\<And>x. transaction_id (example_params\<lparr>time := x\<rparr>) = transaction_id example_params"
    by (simp_all add: example_params_def)
  have r2: "create_transaction 1700000009000 (Some 2)
              (example_params\<lparr>time := Some 1700000008000\<rparr>) ?s1 =
              (Success (Some 2) (CreateResult 1700000000500 ''tx-1'' 1), ?s1)"
    using create_replay [OF p1 ord unbound first p2(1) [of "Some 1700000008000"]
            p2(2) [of "Some 1700000008000"] p2(3) [of "Some 1700000008000"] nz,
            where ?now2.0 = 1700000009000 and ?rpc2.0 = "Some 2"]
    by auto
  have r3: "create_transaction 1700000009500 (Some 3) (example_params\<lparr>time := None\<rparr>) ?s1 =
              (Success (Some 3) (CreateResult 1700000000500 ''tx-1'' 1), ?s1)"
    using create_replay [OF p1 ord unbound first p2(1) [of None] p2(2) [of None]
            p2(3) [of None] nz, where ?now2.0 = 1700000009500 and ?rpc2.0 = "Some 3"]
    by auto
  from first r2 r3 show ?thesis by blast
qed

text \<open>
  Claim C3 says that a second Create with the same transaction id returns exactly the
  create_time and state stored by the first call; the code says so too
  (\<^verbatim>\<open># idempotent: same id -> must return SAME create_time/state\<close>). The replay reads
  the stored value as \<^verbatim>\<open>int(order.payme_create_time or create_time)\<close>, and 0 is falsy:
  a first Create with time 0 binds the transaction, stores create_time 0 and answers with
  it, and a second Create with the same id and time 7 is answered with create_time 7, not
  the stored 0. The store is unchanged by the replay.
\<close>

theorem create_replay_zero_time:
  "create_transaction 1700000000700 (Some 1) (example_params\<lparr>time := Some 0\<rparr>) example_store =
     (Success (Some 1) (CreateResult 0 ''tx-1'' 1),
      example_store\<lparr>orders := [example_order\<lparr>payme_transaction_id := Some ''tx-1'',
         payme_create_time := Some 0, payme_state := Some 1\<rparr>]\<rparr>) \<and>
   create_transaction 1700000009000 (Some 2) (example_params\<lparr>time := Some 7\<rparr>)
     (example_store\<lparr>orders := [example_order\<lparr>payme_transaction_id := Some ''tx-1'',
         payme_create_time := Some 0, payme_state := Some 1\<rparr>]\<rparr>) =
     (Success (Some 2) (CreateResult 7 ''tx-1'' 1),
      example_store\<lparr>orders := [example_order\<lparr>payme_transaction_id := Some ''tx-1'',
         payme_create_time := Some 0, payme_state := Some 1\<rparr>]\<rparr>)"
proof -
  let ?ord1 = "example_order\<lparr>payme_transaction_id := Some ''tx-1'',
                 payme_create_time := Some 0, payme_state := Some 1\<rparr>"
  let ?s1 = "example_store\<lparr>orders := [?ord1]\<rparr>"
  have ord: "order_by_id example_store 1 = Some example_order"
    by (simp add: order_by_id_def example_store_def example_order_def)
  have amt: "expected_amount_tiyin example_order = 5000000"
    by (simp add: expected_amount_tiyin_def int_of_decimal_def example_order_def)
  have saved: "save_order ?ord1 example_store = ?s1"
    by (simp add: save_order_def example_store_def example_order_def)
  have first: "create_transaction 1700000000700 (Some 1) (example_params\<lparr>time := Some 0\<rparr>)
                 example_store = (Success (Some 1) (CreateResult 0 ''tx-1'' 1), ?s1)"
    using ord amt
    by (simp add: create_transaction_def example_params_def truthy_str_def Let_def
             flip: saved)
       (simp add: example_order_def)
  have found: "order_by_id ?s1 1 = Some ?ord1"
    by (simp add: order_by_id_def example_order_def)
  have amt1: "expected_amount_tiyin ?ord1 = 5000000"
    using amt by (simp add: expected_amount_tiyin_def)
  have again: "create_transaction 1700000009000 (Some 2) (example_params\<lparr>time := Some 7\<rparr>) ?s1 =
                 (Success (Some 2) (CreateResult 7 ''tx-1'' 1), ?s1)"
    using found amt1
    by (simp add: create_transaction_def example_params_def truthy_str_def Let_def or_else_def)
       (simp add: example_order_def)
  from first again show ?thesis by (rule conjI)
qed

section \<open>CheckTransaction: reported times\<close>

text \<open>
  Claim C7. For a bound transaction whose order has positive creation and last-update
  timestamps, CheckTransaction reports: a positive create_time, the stored one if positive
  and the order's creation timestamp otherwise; in the states -1 and -2 a positive
  cancel_time, the stored one if positive and the order's last-update timestamp otherwise,
  and the stored reason; in every other state cancel_time 0 and no reason; perform_time 0 in
  state -1; in the states 2 and -2 a positive perform_time, the stored one if positive and
  the reported create_time otherwise.
\<close>

theorem check_transaction_times:
  assumes "transaction_id params = Some tid" and "tid \<noteq> []"
    and "order_by_transaction s tid = Some ord"
    and "0 < created_at ord" and "0 < updated_at ord"
  shows "\<exists>ct pt xt st r.
           check_transaction rpc params s = Success rpc (CheckResult ct pt xt tid st r) \<and>
           st = (case payme_state ord of None \<Rightarrow> 1 | Some v \<Rightarrow> if v = 0 then 1 else v) \<and>
           0 < ct \<and>
           ct = (case payme_create_time ord of
                   None \<Rightarrow> created_at ord
                 | Some c \<Rightarrow> if 0 < c then c else created_at ord) \<and>
           (st = - 1 \<or> st = - 2 \<longrightarrow>
              0 < xt \<and>
              xt = (case payme_cancel_time ord of
                      None \<Rightarrow> updated_at ord
                    | Some c \<Rightarrow> if 0 < c then c else updated_at ord) \<and>
              r = payme_cancel_reason ord) \<and>
           (st \<noteq> - 1 \<and> st \<noteq> - 2 \<longrightarrow> xt = 0 \<and> r = None) \<and>
           (st = - 1 \<longrightarrow> pt = 0) \<and>
           (st = 2 \<or> st = - 2 \<longrightarrow>
              0 < pt \<and>
              pt = (case payme_perform_time ord of
                      None \<Rightarrow> ct
                    | Some p \<Rightarrow> if 0 < p then p else ct))"
  using assms
  by (auto simp add: check_transaction_def truthy_str_def or_else_def Let_def
           split: option.splits)

text \<open>
  A transaction cancelled before perform with no times stored, and a performed one with no
  perform_time stored.
\<close>

theorem check_transaction_times_witness:
  "check_transaction None example_params
     (example_store\<lparr>orders := [example_order\<lparr>status := Cancelled,
         payme_transaction_id := Some ''tx-1'', payme_state := Some (- 1)\<rparr>]\<rparr>)
     = Success None (CheckResult 1700000000000 0 1700000000000 ''tx-1'' (- 1) None) \<and>
   check_transaction None example_params
     (example_store\<lparr>orders := [example_order\<lparr>status := Paid,
         payme_transaction_id := Some ''tx-1'', payme_create_time := Some 1700000000500,
         payme_state := Some 2\<rparr>]\<rparr>)
     = Success None (CheckResult 1700000000500 1700000000500 0 ''tx-1'' 2 None)"
proof -
  let ?c = "example_order\<lparr>status := Cancelled,
         payme_transaction_id := Some ''tx-1'', payme_state := Some (- 1)\<rparr>"
  let ?p = "example_order\<lparr>status := Paid,
         payme_transaction_id := Some ''tx-1'', payme_create_time := Some 1700000000500,
         payme_state := Some 2\<rparr>"
  have a: "transaction_id example_params = Some ''tx-1''" "''tx-1'' \<noteq> []"
    by (simp_all add: example_params_def)
  have b: "order_by_transaction (example_store\<lparr>orders := [?c]\<rparr>) ''tx-1'' = Some ?c"
          "order_by_transaction (example_store\<lparr>orders := [?p]\<rparr>) ''tx-1'' = Some ?p"
    by (simp_all add: order_by_transaction_def)
  have c: "0 < created_at ?c" "0 < updated_at ?c" "0 < created_at ?p" "0 < updated_at ?p"
    by (simp_all add: example_order_def)
  have v: "created_at ?c = 1700000000000" "updated_at ?c = 1700000000000"
          "payme_state ?c = Some (- 1)" "payme_create_time ?c = None"
          "payme_cancel_time ?c = None" "payme_cancel_reason ?c = None"
          "payme_state ?p = Some 2" "payme_create_time ?p = Some 1700000000500"
          "payme_perform_time ?p = None"
    by (simp_all add: example_order_def)
  have r1: "check_transaction None example_params (example_store\<lparr>orders := [?c]\<rparr>)
              = Success None (CheckResult 1700000000000 0 1700000000000 ''tx-1'' (- 1) None)"
    using check_transaction_times [OF a b(1) c(1) c(2), of None]
    by (auto simp only: v option.case) auto
  have r2: "check_transaction None example_params (example_store\<lparr>orders := [?p]\<rparr>)
              = Success None (CheckResult 1700000000500 1700000000500 0 ''tx-1'' 2 None)"
    using check_transaction_times [OF a b(2) c(3) c(4), of None]
    by (auto simp only: v option.case) auto
  from r1 r2 show ?thesis by blast
qed

section \<open>The lifecycle invariant is maintained\<close>

text \<open>
  Create, Perform and Cancel keep every order of the store consistent: none of them leaves
  a positive perform_time on an order outside the states 2 and -2.
\<close>

lemma save_order_preserves:
  "\<forall>x \<in> set (orders s). P x \<Longrightarrow> P y \<Longrightarrow> \<forall>x \<in> set (orders (save_order y s)). P x"
  by (auto simp add: save_order_def)

lemma order_by_id_mem: "order_by_id s i = Some x \<Longrightarrow> x \<in> set (orders s)"
  by (auto simp add: order_by_id_def find_Some_iff)

lemma order_by_transaction_mem: "order_by_transaction s t = Some x \<Longrightarrow> x \<in> set (orders s)"
  by (auto simp add: order_by_transaction_def find_Some_iff)

lemma orders_participants_update [simp]: "orders (s\<lparr>participants := m\<rparr>) = orders s"
  by simp

lemma payme_consistent_create:
  assumes inv: "\<forall>x \<in> set (orders s). payme_consistent x"
  shows "\<forall>x \<in> set (orders (snd (create_transaction now rpc params s))). payme_consistent x"
proof (cases "account_order_id params")
  case None
  then show ?thesis using inv by (simp add: create_transaction_def)
next
  case oid: (Some oid)
  show ?thesis
  proof (cases "amount params")
    case None
    then show ?thesis using inv oid by (simp add: create_transaction_def)
  next
    case amt: (Some a)
    show ?thesis
    proof (cases "order_by_id s oid")
      case None
      then show ?thesis using inv oid amt by (simp add: create_transaction_def Let_def)
    next
      case (Some ord)
      then have mem: "ord \<in> set (orders s)" by (rule order_by_id_mem)
      let ?ord1 = "ord\<lparr>payme_transaction_id := Some (the (transaction_id params)),
                        payme_create_time := Some (case time params of None \<Rightarrow> now | Some t \<Rightarrow> t),
                        payme_state := Some 1\<rparr>"
      show ?thesis
      proof (cases "truthy_str (payme_transaction_id ord)")
        case True
        then have "snd (create_transaction now rpc params s) = s"
          using oid amt Some by (simp add: create_transaction_def Let_def)
        then show ?thesis using inv by simp
      next
        case False
        then have "\<not> 0 < or_else (payme_perform_time ord) 0"
          using inv mem by (auto simp add: payme_consistent_def)
        then have new: "payme_consistent ?ord1" by (simp add: payme_consistent_def)
        have "snd (create_transaction now rpc params s) = s \<or>
              snd (create_transaction now rpc params s) = save_order ?ord1 s"
          using oid amt Some False by (simp add: create_transaction_def Let_def)
        then show ?thesis
          using inv save_order_preserves [OF inv new] by auto
      qed
    qed
  qed
qed

lemma payme_consistent_perform:
  assumes inv: "\<forall>x \<in> set (orders s). payme_consistent x"
  shows "\<forall>x \<in> set (orders (snd (perform_transaction now rpc params s))). payme_consistent x"
proof (cases "truthy_str (transaction_id params)")
  case False
  then show ?thesis using inv by (simp add: perform_transaction_def)
next
  case True
  then obtain tid where tid: "transaction_id params = Some tid" "tid \<noteq> []"
    by (auto simp add: truthy_str_def split: option.splits)
  show ?thesis
  proof (cases "order_by_transaction s tid")
    case None
    then show ?thesis using inv True tid by (simp add: perform_transaction_def)
  next
    case (Some ord)
    let ?ord1 = "ord\<lparr>status := Paid, payme_state := Some 2,
                      payme_perform_time := Some now, updated_at := now\<rparr>"
    have "payme_transaction_id ord = Some tid" using Some by (rule order_by_transaction_id)
    then have new: "payme_consistent ?ord1"
      using tid by (simp add: payme_consistent_def truthy_str_def)
    have "orders (snd (perform_transaction now rpc params s)) = orders s \<or>
          orders (snd (perform_transaction now rpc params s)) = orders (save_order ?ord1 s)"
      using True tid Some
      by (simp add: perform_transaction_def Let_def sync_participant_def split: option.splits)
    then show ?thesis
      using inv save_order_preserves [OF inv new] by auto
  qed
qed

lemma payme_consistent_cancel:
  assumes inv: "\<forall>x \<in> set (orders s). payme_consistent x"
  shows "\<forall>x \<in> set (orders (snd (cancel_transaction now rpc params s))). payme_consistent x"
proof (cases "truthy_str (transaction_id params)")
  case False
  then show ?thesis using inv by (simp add: cancel_transaction_def)
next
  case True
  then obtain tid where tid: "transaction_id params = Some tid" "tid \<noteq> []"
    by (auto simp add: truthy_str_def split: option.splits)
  show ?thesis
  proof (cases "order_by_transaction s tid")
    case None
    then show ?thesis using inv True tid by (simp add: cancel_transaction_def)
  next
    case (Some ord)
    define wp where "wp = (0 < or_else (payme_perform_time ord) 0 \<or> payme_state ord = Some 2
                            \<or> status ord = Paid)"
    have wpT: "(0 < or_else (payme_perform_time ord) 0 \<or> payme_state ord = Some 2
                 \<or> status ord = Paid) = wp"
      by (simp add: wp_def)
    have bound: "truthy_str (payme_transaction_id ord)"
      using order_by_transaction_id [OF Some] tid by (simp add: truthy_str_def)
    have pos: "0 < or_else (payme_perform_time ord) 0 \<Longrightarrow> wp" by (simp add: wp_def)
    have heal: "\<And>ct r. payme_consistent (ord\<lparr>payme_cancel_time := ct,
                   payme_state := Some (if wp then - 2 else - 1),
                   payme_cancel_reason := r, updated_at := now\<rparr>)"
      using bound pos by (auto simp add: payme_consistent_def)
    have first: "\<And>r. payme_consistent (ord\<lparr>status := Cancelled,
                   payme_state := Some (if wp then - 2 else - 1),
                   payme_cancel_time := Some now, payme_cancel_reason := Some r,
                   payme_perform_time := (if \<not> wp then Some 0 else payme_perform_time ord),
                   updated_at := now\<rparr>)"
      using bound pos by (auto simp add: payme_consistent_def or_else_def)
    have "orders (snd (cancel_transaction now rpc params s)) = orders s \<or>
          (\<exists>y. payme_consistent y \<and>
             orders (snd (cancel_transaction now rpc params s)) = orders (save_order y s))"
    proof (cases "status ord = Cancelled \<or> in_cancelled_states (payme_state ord)")
      case c: True
      show ?thesis
      proof (cases "or_else (payme_state ord) 0 \<noteq> (if wp then - 2 else - 1)")
        case True
        have "orders (snd (cancel_transaction now rpc params s)) =
                 orders (save_order (ord\<lparr>payme_cancel_time :=
                     (if \<not> truthy_int (payme_cancel_time ord) then Some now
                      else payme_cancel_time ord),
                   payme_state := Some (if wp then - 2 else - 1),
                   payme_cancel_reason :=
                     (case payme_cancel_reason ord of
                        None \<Rightarrow> (case reason params of
                                   Some r \<Rightarrow> Some r
                                 | None \<Rightarrow> Some (if wp then 5 else 3))
                      | Some r \<Rightarrow> Some r),
                   updated_at := now\<rparr>) s)"
          using tid Some c True
          by (simp add: cancel_transaction_def Let_def wpT truthy_str_def)
        then show ?thesis using heal by blast
      next
        case False
        then have "snd (cancel_transaction now rpc params s) = s"
          using tid Some c
          by (simp add: cancel_transaction_def Let_def wpT truthy_str_def split: option.splits)
        then show ?thesis by simp
      qed
    next
      case c: False
      have "\<exists>r. orders (snd (cancel_transaction now rpc params s)) =
                 orders (save_order (ord\<lparr>status := Cancelled,
                   payme_state := Some (if wp then - 2 else - 1),
                   payme_cancel_time := Some now, payme_cancel_reason := Some r,
                   payme_perform_time := (if \<not> wp then Some 0 else payme_perform_time ord),
                   updated_at := now\<rparr>) s) \<or>
            orders (snd (cancel_transaction now rpc params s)) = orders s"
        using tid Some c
        by (cases wp)
           (auto simp add: cancel_transaction_def Let_def wpT truthy_str_def sync_participant_def
                 split: option.splits)
      then show ?thesis using first by blast
    qed
    then show ?thesis
      using inv save_order_preserves [OF inv] by auto
  qed
qed

section \<open>GetStatement: range and entries\<close>

text \<open>
  Claim C8. GetStatement with from > to answers with the invalid-params fault -32602.
  Otherwise it lists, in the order of the table, one entry for each order that has a
  transaction id and a create_time c with from \<le> c \<le> to, and for no other order; an order
  whose create_time is to + 1 has none. Each entry reports the transaction id, c as time and
  create_time, the amount in tiyin, the order id and the state; as perform_time the stored
  one if positive and 0 otherwise, which on an order satisfying the lifecycle invariant is
  non-zero only in the states 2 and -2; as cancel_time the stored one in the states -1 and
  -2 and 0 otherwise; a reason only in the states -1 and -2.
\<close>

theorem get_statement_range:
  assumes "from_ts params = Some f" and "to_ts params = Some t"
  shows "(t < f \<longrightarrow>
            get_statement rpc params s = Error rpc (- 32602) ''Invalid Params'' (Some ''from>to'')) \<and>
         (f \<le> t \<longrightarrow>
            (\<exists>sel. sel = filter (\<lambda>x. payme_transaction_id x \<noteq> None \<and>
                                    (\<exists>c. payme_create_time x = Some c \<and> f \<le> c \<and> c \<le> t))
                            (orders s) \<and>
               get_statement rpc params s = Success rpc (StatementResult (map statement_entry sel)) \<and>
               (\<forall>x \<in> set (orders s). payme_create_time x = Some (t + 1) \<longrightarrow> x \<notin> set sel) \<and>
               (\<forall>x \<in> set sel.
                  \<exists>tid c st.
                    payme_transaction_id x = Some tid \<and> payme_create_time x = Some c \<and>
                    st = (case payme_state x of None \<Rightarrow> 1 | Some v \<Rightarrow> if v = 0 then 1 else v) \<and>
                    tx_id (statement_entry x) = tid \<and>
                    tx_transaction (statement_entry x) = tid \<and>
                    tx_time (statement_entry x) = c \<and>
                    tx_create_time (statement_entry x) = c \<and>
                    tx_amount (statement_entry x) = int_of_decimal (total_amount x * 100) \<and>
                    tx_account_order_id (statement_entry x) = order_id x \<and>
                    tx_state (statement_entry x) = st \<and>
                    tx_perform_time (statement_entry x) =
                      (case payme_perform_time x of
                         None \<Rightarrow> 0 | Some p \<Rightarrow> if 0 < p then p else 0) \<and>
                    (payme_consistent x \<longrightarrow> tx_perform_time (statement_entry x) \<noteq> 0 \<longrightarrow>
                       st = 2 \<or> st = - 2) \<and>
                    tx_cancel_time (statement_entry x) =
                      (if st = - 1 \<or> st = - 2
                       then (case payme_cancel_time x of None \<Rightarrow> 0 | Some c \<Rightarrow> c) else 0) \<and>
                    tx_reason (statement_entry x) =
                      (if st = - 1 \<or> st = - 2 then payme_cancel_reason x else None))))"
proof -
  let ?P = "\<lambda>x. payme_transaction_id x \<noteq> None \<and>
                 (\<exists>c. payme_create_time x = Some c \<and> f \<le> c \<and> c \<le> t)"
  have P: "in_statement_range f t = ?P"
    by (rule ext) (auto simp add: in_statement_range_def split: option.splits)
  have entry: "\<And>x. ?P x \<Longrightarrow>
      \<exists>tid c st.
        payme_transaction_id x = Some tid \<and> payme_create_time x = Some c \<and>
        st = (case payme_state x of None \<Rightarrow> 1 | Some v \<Rightarrow> if v = 0 then 1 else v) \<and>
        tx_id (statement_entry x) = tid \<and>
        tx_transaction (statement_entry x) = tid \<and>
        tx_time (statement_entry x) = c \<and>
        tx_create_time (statement_entry x) = c \<and>
        tx_amount (statement_entry x) = int_of_decimal (total_amount x * 100) \<and>
        tx_account_order_id (statement_entry x) = order_id x \<and>
        tx_state (statement_entry x) = st \<and>
        tx_perform_time (statement_entry x) =
          (case payme_perform_time x of None \<Rightarrow> 0 | Some p \<Rightarrow> if 0 < p then p else 0) \<and>
        (payme_consistent x \<longrightarrow> tx_perform_time (statement_entry x) \<noteq> 0 \<longrightarrow>
           st = 2 \<or> st = - 2) \<and>
        tx_cancel_time (statement_entry x) =
          (if st = - 1 \<or> st = - 2
           then (case payme_cancel_time x of None \<Rightarrow> 0 | Some c \<Rightarrow> c) else 0) \<and>
        tx_reason (statement_entry x) =
          (if st = - 1 \<or> st = - 2 then payme_cancel_reason x else None)"
    by (auto simp add: statement_entry_def or_else_def payme_consistent_def Let_def
             split: option.splits if_splits)
  show ?thesis
    using assms entry
    by (simp add: get_statement_def P ERROR_INVALID_PARAMS_def)
qed

text \<open>
  Three transactions created at 1700000000500, 1700000000900 and 1700000000901; the
  statement for [1700000000500, 1700000000900] lists the first two, the reversed range is
  refused.
\<close>

theorem get_statement_range_witness:
  "get_statement None (example_params\<lparr>from_ts := Some 1700000000900, to_ts := Some 1700000000500\<rparr>)
     (example_store\<lparr>orders :=
        [example_order\<lparr>order_id := 3, payme_transaction_id := Some ''tx-3'',
                       payme_create_time := Some 1700000000901, payme_state := Some 1\<rparr>,
         example_order\<lparr>order_id := 2, status := Cancelled, payme_transaction_id := Some ''tx-2'',
                       payme_create_time := Some 1700000000900, payme_perform_time := Some 0,
                       payme_cancel_time := Some 1700000000950, payme_state := Some (- 1),
                       payme_cancel_reason := Some 3\<rparr>,
         example_order\<lparr>status := Paid, payme_transaction_id := Some ''tx-1'',
                       payme_create_time := Some 1700000000500,
                       payme_perform_time := Some 1700000000600, payme_state := Some 2\<rparr>]\<rparr>)
     = Error None (- 32602) ''Invalid Params'' (Some ''from>to'') \<and>
   get_statement None (example_params\<lparr>from_ts := Some 1700000000500, to_ts := Some 1700000000900\<rparr>)
     (example_store\<lparr>orders :=
        [example_order\<lparr>order_id := 3, payme_transaction_id := Some ''tx-3'',
                       payme_create_time := Some 1700000000901, payme_state := Some 1\<rparr>,
         example_order\<lparr>order_id := 2, status := Cancelled, payme_transaction_id := Some ''tx-2'',
                       payme_create_time := Some 1700000000900, payme_perform_time := Some 0,
                       payme_cancel_time := Some 1700000000950, payme_state := Some (- 1),
                       payme_cancel_reason := Some 3\<rparr>,
         example_order\<lparr>status := Paid, payme_transaction_id := Some ''tx-1'',
                       payme_create_time := Some 1700000000500,
                       payme_perform_time := Some 1700000000600, payme_state := Some 2\<rparr>]\<rparr>)
     = Success None (StatementResult
        [\<lparr>tx_id = ''tx-2'', tx_time = 1700000000900, tx_amount = 5000000,
          tx_account_order_id = 2, tx_create_time = 1700000000900, tx_perform_time = 0,
          tx_cancel_time = 1700000000950, tx_transaction = ''tx-2'', tx_state = - 1,
          tx_reason = Some 3\<rparr>,
         \<lparr>tx_id = ''tx-1'', tx_time = 1700000000500, tx_amount = 5000000,
          tx_account_order_id = 1, tx_create_time = 1700000000500,
          tx_perform_time = 1700000000600, tx_cancel_time = 0, tx_transaction = ''tx-1'',
          tx_state = 2, tx_reason = None\<rparr>])"
proof -
  let ?s = "example_store\<lparr>orders :=
        [example_order\<lparr>order_id := 3, payme_transaction_id := Some ''tx-3'',
                       payme_create_time := Some 1700000000901, payme_state := Some 1\<rparr>,
         example_order\<lparr>order_id := 2, status := Cancelled, payme_transaction_id := Some ''tx-2'',
                       payme_create_time := Some 1700000000900, payme_perform_time := Some 0,
                       payme_cancel_time := Some 1700000000950, payme_state := Some (- 1),
                       payme_cancel_reason := Some 3\<rparr>,
         example_order\<lparr>status := Paid, payme_transaction_id := Some ''tx-1'',
                       payme_create_time := Some 1700000000500,
                       payme_perform_time := Some 1700000000600, payme_state := Some 2\<rparr>]\<rparr>"
  have a: "\<And>x y. from_ts (example_params\<lparr>from_ts := Some x, to_ts := Some y\<rparr>) = Some x"
          "\<And>x y. to_ts (example_params\<lparr>from_ts := Some x, to_ts := Some y\<rparr>) = Some y"
    by simp_all
  have r1: "get_statement None
              (example_params\<lparr>from_ts := Some 1700000000900, to_ts := Some 1700000000500\<rparr>) ?s
            = Error None (- 32602) ''Invalid Params'' (Some ''from>to'')"
    using get_statement_range [OF a(1) a(2), of 1700000000500 1700000000900 None ?s]
    by simp
  have r2: "get_statement None
              (example_params\<lparr>from_ts := Some 1700000000500, to_ts := Some 1700000000900\<rparr>) ?s
            = Success None (StatementResult
        [\<lparr>tx_id = ''tx-2'', tx_time = 1700000000900, tx_amount = 5000000,
          tx_account_order_id = 2, tx_create_time = 1700000000900, tx_perform_time = 0,
          tx_cancel_time = 1700000000950, tx_transaction = ''tx-2'', tx_state = - 1,
          tx_reason = Some 3\<rparr>,
         \<lparr>tx_id = ''tx-1'', tx_time = 1700000000500, tx_amount = 5000000,
          tx_account_order_id = 1, tx_create_time = 1700000000500,
          tx_perform_time = 1700000000600, tx_cancel_time = 0, tx_transaction = ''tx-1'',
          tx_state = 2, tx_reason = None\<rparr>])"
    using get_statement_range [OF a(1) a(2), of 1700000000900 1700000000500 None ?s]
    by (simp add: statement_entry_def or_else_def int_of_decimal_def example_order_def)
  from r1 r2 show ?thesis by (rule conjI)
qed

section \<open>Rebinding an external transaction id\<close>

text \<open>
  Claim C2 says that on an order with a bound external id a callback presenting another id
  is rejected without changing the stored id, Payme Create returning the busy fault and
  Click Prepare not overwriting the bound id. Neither half holds as stated. Click Prepare
  with the id 222 on a pending order bound to 111 succeeds and stores 222 (the branch that
  detects the other id is an empty "reset for new transaction"). Payme Create with tx-2 and
  the right amount on a paid order bound to tx-1 is rejected with the already-paid fault
  -31051, not the busy fault: the checks of amount and status come before the one of the
  bound id.
\<close>

theorem rebinding_counterexample:
  "handle_prepare
     (example_order\<lparr>payment_method := ''click'', click_trans_id := Some 111,
                    click_prepare_id := Some 1\<rparr>) 222 ''1'' 0
     (example_store\<lparr>orders := [example_order\<lparr>payment_method := ''click'',
                                   click_trans_id := Some 111, click_prepare_id := Some 1\<rparr>]\<rparr>)
   = (ClickResponse 222 ''1'' 1 0 ''Success'',
      example_store\<lparr>orders := [example_order\<lparr>payment_method := ''click'',
                                   click_trans_id := Some 222, click_prepare_id := Some 1\<rparr>]\<rparr>) \<and>
   create_transaction 1700000003000 (Some 9) (example_params\<lparr>transaction_id := Some ''tx-2''\<rparr>)
     (example_store\<lparr>orders := [example_order\<lparr>status := Paid,
         payme_transaction_id := Some ''tx-1'', payme_create_time := Some 1700000000500,
         payme_perform_time := Some 1700000001000, payme_state := Some 2\<rparr>]\<rparr>)
   = (Error (Some 9) (- 31051) ''Order already paid'' (Some ''order_id''),
      example_store\<lparr>orders := [example_order\<lparr>status := Paid,
         payme_transaction_id := Some ''tx-1'', payme_create_time := Some 1700000000500,
         payme_perform_time := Some 1700000001000, payme_state := Some 2\<rparr>]\<rparr>)"
proof -
  have click: "handle_prepare
     (example_order\<lparr>payment_method := ''click'', click_trans_id := Some 111,
                    click_prepare_id := Some 1\<rparr>) 222 ''1'' 0
     (example_store\<lparr>orders := [example_order\<lparr>payment_method := ''click'',
                                   click_trans_id := Some 111, click_prepare_id := Some 1\<rparr>]\<rparr>)
   = (ClickResponse 222 ''1'' 1 0 ''Success'',
      example_store\<lparr>orders := [example_order\<lparr>payment_method := ''click'',
                                   click_trans_id := Some 222, click_prepare_id := Some 1\<rparr>]\<rparr>)"
    by (simp add: handle_prepare_def save_order_def example_order_def CLICK_ERROR_SUCCESS_def)
  let ?paid = "example_order\<lparr>status := Paid,
         payme_transaction_id := Some ''tx-1'', payme_create_time := Some 1700000000500,
         payme_perform_time := Some 1700000001000, payme_state := Some 2\<rparr>"
  have found: "order_by_id (example_store\<lparr>orders := [?paid]\<rparr>) 1 = Some ?paid"
    by (simp add: order_by_id_def example_order_def)
  have amt: "expected_amount_tiyin ?paid = 5000000"
    by (simp add: expected_amount_tiyin_def int_of_decimal_def example_order_def)
  have payme: "create_transaction 1700000003000 (Some 9)
                 (example_params\<lparr>transaction_id := Some ''tx-2''\<rparr>)
                 (example_store\<lparr>orders := [?paid]\<rparr>)
               = (Error (Some 9) (- 31051) ''Order already paid'' (Some ''order_id''),
                  example_store\<lparr>orders := [?paid]\<rparr>)"
    using found amt
    by (simp add: create_transaction_def example_params_def truthy_str_def Let_def
                  ERROR_ORDER_ALREADY_PAID_def)
  from click payme show ?thesis by (rule conjI)
qed

text \<open>
  Claim C2, amended. For an order that already has a bound Payme transaction id, a
  CreateTransaction for that order presenting a different, non-empty transaction id is
  always rejected and leaves the store unchanged: with the invalid-params fault -32602 if it
  carries no amount, else with the invalid-amount fault -31001 if the amount is not the
  expected one, else with the already-paid fault -31051 if the order is paid, else with the
  fault -31050 "Order is blocked" if the order is cancelled, and otherwise with the busy
  fault -31050 "Order is busy". Click Prepare does not reject another id: on a stored order
  that is neither paid nor cancelled it answers success, and afterwards the order's
  click_trans_id is the one presented, whatever was bound before, and its prepare id is the
  order id; on a paid order it answers the already-paid fault -4 and on a cancelled order
  the cancelled fault -9, and writes nothing.
\<close>

theorem rebinding_rejected_by_create:
  "(order_by_id s oid = Some ord \<and> account_order_id params = Some oid \<and>
    payme_transaction_id ord = Some bound \<and> bound \<noteq> [] \<and>
    transaction_id params = Some tid \<and> tid \<noteq> [] \<and> tid \<noteq> bound \<longrightarrow>
      create_transaction now rpc params s =
        (case amount params of
           None \<Rightarrow> Error rpc (- 32602) ''Invalid Params'' (Some ''amount'')
         | Some a \<Rightarrow>
             if a \<noteq> expected_amount_tiyin ord then
               Error rpc (- 31001) ''Invalid amount'' (Some ''amount'')
             else if status ord = Paid then
               Error rpc (- 31051) ''Order already paid'' (Some ''order_id'')
             else if status ord = Cancelled then
               Error rpc (- 31050) ''Order is blocked'' (Some ''order_id'')
             else Error rpc (- 31050) ''Order is busy'' (Some ''order_id''),
         s)) \<and>
   (order_by_id s (order_id c_ord) = Some c_ord \<and>
    status c_ord \<noteq> Paid \<and> status c_ord \<noteq> Cancelled \<longrightarrow>
      (\<exists>s' x. handle_prepare c_ord click_tid merchant_trans_id err s =
                 (ClickResponse click_tid merchant_trans_id (order_id c_ord) 0 ''Success'', s') \<and>
              order_by_id s' (order_id c_ord) = Some x \<and>
              click_trans_id x = Some click_tid \<and>
              click_prepare_id x = Some (order_id c_ord))) \<and>
   (status c_ord = Paid \<longrightarrow>
      handle_prepare c_ord click_tid merchant_trans_id err s =
        (ClickResponse click_tid merchant_trans_id (order_id c_ord) (- 4) ''Already paid'', s)) \<and>
   (status c_ord = Cancelled \<longrightarrow>
      handle_prepare c_ord click_tid merchant_trans_id err s =
        (ClickResponse click_tid merchant_trans_id (order_id c_ord) (- 9) ''Order cancelled'', s))"
proof -
  have payme: "create_transaction now rpc params s =
        (case amount params of
           None \<Rightarrow> Error rpc (- 32602) ''Invalid Params'' (Some ''amount'')
         | Some a \<Rightarrow>
             if a \<noteq> expected_amount_tiyin ord then
               Error rpc (- 31001) ''Invalid amount'' (Some ''amount'')
             else if status ord = Paid then
               Error rpc (- 31051) ''Order already paid'' (Some ''order_id'')
             else if status ord = Cancelled then
               Error rpc (- 31050) ''Order is blocked'' (Some ''order_id'')
             else Error rpc (- 31050) ''Order is busy'' (Some ''order_id''),
         s)"
    if h: "order_by_id s oid = Some ord" "account_order_id params = Some oid"
          "payme_transaction_id ord = Some bound" "bound \<noteq> []"
          "transaction_id params = Some tid" "tid \<noteq> []" "tid \<noteq> bound"
  proof (cases "amount params")
    case None
    then show ?thesis using h by (simp add: create_transaction_def ERROR_INVALID_PARAMS_def)
  next
    case (Some a)
    from h have ne: "bound \<noteq> tid" by auto
    show ?thesis
      using h Some ne
      by (simp add: create_transaction_def Let_def truthy_str_def ERROR_ORDER_NOT_FOUND_def
                    ERROR_INVALID_AMOUNT_def ERROR_ORDER_ALREADY_PAID_def)
  qed
  let ?x = "c_ord\<lparr>click_trans_id := Some click_tid,
                    click_prepare_id := Some (order_id c_ord), payment_method := ''click''\<rparr>"
  have click: "\<exists>s' x. handle_prepare c_ord click_tid merchant_trans_id err s =
                 (ClickResponse click_tid merchant_trans_id (order_id c_ord) 0 ''Success'', s') \<and>
              order_by_id s' (order_id c_ord) = Some x \<and>
              click_trans_id x = Some click_tid \<and>
              click_prepare_id x = Some (order_id c_ord)"
    if g: "order_by_id s (order_id c_ord) = Some c_ord"
          "status c_ord \<noteq> Paid" "status c_ord \<noteq> Cancelled"
  proof -
    have run: "handle_prepare c_ord click_tid merchant_trans_id err s =
                 (ClickResponse click_tid merchant_trans_id (order_id c_ord) 0 ''Success'',
                  save_order ?x s)"
      using g by (simp add: handle_prepare_def CLICK_ERROR_SUCCESS_def)
    have found: "order_by_id (save_order ?x s) (order_id c_ord) = Some ?x"
      using g(1) by (rule order_by_id_save_order) simp
    have fields: "click_trans_id ?x = Some click_tid" "click_prepare_id ?x = Some (order_id c_ord)"
      by simp_all
    from run found fields show ?thesis by blast
  qed
  have paid: "status c_ord = Paid \<longrightarrow>
      handle_prepare c_ord click_tid merchant_trans_id err s =
        (ClickResponse click_tid merchant_trans_id (order_id c_ord) (- 4) ''Already paid'', s)"
    by (simp add: handle_prepare_def CLICK_ERROR_ALREADY_PAID_def)
  have cancelled: "status c_ord = Cancelled \<longrightarrow>
      handle_prepare c_ord click_tid merchant_trans_id err s =
        (ClickResponse click_tid merchant_trans_id (order_id c_ord) (- 9) ''Order cancelled'', s)"
    by (simp add: handle_prepare_def CLICK_ERROR_TRANSACTION_CANCELLED_def)
  from payme click paid cancelled show ?thesis by blast
qed

text \<open>
  Create with tx-2 on the pending order bound to tx-1 is busy; Prepare with 333 on the
  pending order bound to 111 rebinds it, and on the paid order is refused.
\<close>

theorem rebinding_rejected_by_create_witness:
  "create_transaction 1700000003000 (Some 9) (example_params\<lparr>transaction_id := Some ''tx-2''\<rparr>)
     (example_store\<lparr>orders := [example_order\<lparr>payme_transaction_id := Some ''tx-1'',
         payme_create_time := Some 1700000000500, payme_state := Some 1\<rparr>]\<rparr>)
   = (Error (Some 9) (- 31050) ''Order is busy'' (Some ''order_id''),
      example_store\<lparr>orders := [example_order\<lparr>payme_transaction_id := Some ''tx-1'',
         payme_create_time := Some 1700000000500, payme_state := Some 1\<rparr>]\<rparr>) \<and>
   (\<exists>s' x. handle_prepare (example_order\<lparr>click_trans_id := Some 111, click_prepare_id := Some 1\<rparr>)
              333 ''1'' 0
              (example_store\<lparr>orders := [example_order\<lparr>click_trans_id := Some 111,
                                                           click_prepare_id := Some 1\<rparr>]\<rparr>)
            = (ClickResponse 333 ''1'' 1 0 ''Success'', s') \<and>
            order_by_id s' 1 = Some x \<and> click_trans_id x = Some 333 \<and>
            click_prepare_id x = Some 1) \<and>
   handle_prepare (example_order\<lparr>status := Paid, click_trans_id := Some 111\<rparr>) 333 ''1'' 0
     (example_store\<lparr>orders := [example_order\<lparr>status := Paid, click_trans_id := Some 111\<rparr>]\<rparr>)
   = (ClickResponse 333 ''1'' 1 (- 4) ''Already paid'',
      example_store\<lparr>orders := [example_order\<lparr>status := Paid, click_trans_id := Some 111\<rparr>]\<rparr>)"
proof -
  let ?ord = "example_order\<lparr>payme_transaction_id := Some ''tx-1'',
         payme_create_time := Some 1700000000500, payme_state := Some 1\<rparr>"
  let ?s = "example_store\<lparr>orders := [?ord]\<rparr>"
  let ?p = "example_params\<lparr>transaction_id := Some ''tx-2''\<rparr>"
  let ?c = "example_order\<lparr>click_trans_id := Some 111, click_prepare_id := Some 1\<rparr>"
  let ?t = "example_store\<lparr>orders := [?c]\<rparr>"
  let ?d = "example_order\<lparr>status := Paid, click_trans_id := Some 111\<rparr>"
  let ?u = "example_store\<lparr>orders := [?d]\<rparr>"
  have a: "order_by_id ?s 1 = Some ?ord \<and> account_order_id ?p = Some 1 \<and>
           payme_transaction_id ?ord = Some ''tx-1'' \<and> ''tx-1'' \<noteq> [] \<and>
           transaction_id ?p = Some ''tx-2'' \<and> ''tx-2'' \<noteq> [] \<and> ''tx-2'' \<noteq> ''tx-1''"
    by (simp add: order_by_id_def example_order_def example_params_def)
  have b: "amount ?p = Some 5000000" "expected_amount_tiyin ?ord = 5000000"
          "status ?ord = Pending"
    by (simp_all add: expected_amount_tiyin_def int_of_decimal_def
                      example_order_def example_params_def)
  have c: "order_by_id ?t (order_id ?c) = Some ?c \<and> status ?c \<noteq> Paid \<and> status ?c \<noteq> Cancelled"
    by (simp add: order_by_id_def example_order_def)
  have e: "order_id ?c = 1" "order_id ?d = 1" "status ?d = Paid"
    by (simp_all add: example_order_def)
  from rebinding_rejected_by_create [where s = ?s and oid = 1 and ord = ?ord and params = ?p
         and bound = "''tx-1''" and tid = "''tx-2''" and now = 1700000003000
         and rpc = "Some 9"] a
  have "create_transaction 1700000003000 (Some 9) ?p ?s =
        (case amount ?p of
           None \<Rightarrow> Error (Some 9) (- 32602) ''Invalid Params'' (Some ''amount'')
         | Some a \<Rightarrow>
             if a \<noteq> expected_amount_tiyin ?ord then
               Error (Some 9) (- 31001) ''Invalid amount'' (Some ''amount'')
             else if status ?ord = Paid then
               Error (Some 9) (- 31051) ''Order already paid'' (Some ''order_id'')
             else if status ?ord = Cancelled then
               Error (Some 9) (- 31050) ''Order is blocked'' (Some ''order_id'')
             else Error (Some 9) (- 31050) ''Order is busy'' (Some ''order_id''),
         ?s)"
    by blast
  then have r1: "create_transaction 1700000003000 (Some 9) ?p ?s =
                   (Error (Some 9) (- 31050) ''Order is busy'' (Some ''order_id''), ?s)"
    by (simp only: b option.case) simp
  from rebinding_rejected_by_create [where s = ?t and c_ord = ?c and click_tid = 333
         and merchant_trans_id = "''1''" and err = 0] c
  have "\<exists>s' x. handle_prepare ?c 333 ''1'' 0 ?t =
                 (ClickResponse 333 ''1'' (order_id ?c) 0 ''Success'', s') \<and>
              order_by_id s' (order_id ?c) = Some x \<and>
              click_trans_id x = Some 333 \<and> click_prepare_id x = Some (order_id ?c)"
    by blast
  then have r2: "\<exists>s' x. handle_prepare ?c 333 ''1'' 0 ?t =
                 (ClickResponse 333 ''1'' 1 0 ''Success'', s') \<and>
              order_by_id s' 1 = Some x \<and>
              click_trans_id x = Some 333 \<and> click_prepare_id x = Some 1"
    by (simp only: e)
  from rebinding_rejected_by_create [where s = ?u and c_ord = ?d and click_tid = 333
         and merchant_trans_id = "''1''" and err = 0] e(3)
  have "handle_prepare ?d 333 ''1'' 0 ?u =
          (ClickResponse 333 ''1'' (order_id ?d) (- 4) ''Already paid'', ?u)"
    by blast
  then have r3: "handle_prepare ?d 333 ''1'' 0 ?u =
          (ClickResponse 333 ''1'' 1 (- 4) ''Already paid'', ?u)"
    by (simp only: e)
  from r1 r2 r3 show ?thesis by blast
qed

section \<open>Order initiation: the first order and the pay link\<close>

text \<open>
  The loop creates the orders newest first, each pending, at its subject's price.
\<close>

lemma create_orders_spec:
  "create_orders now pid m subjs s = (ords, s') \<Longrightarrow>
   orders s' = rev ords @ orders s \<and> map total_amount ords = map ticket_price subjs \<and>
   (\<forall>x \<in> set ords. status x = Pending \<and> next_order_id s \<le> order_id x)"
proof (induction subjs arbitrary: s ords s')
  case Nil
  then show ?case by simp
next
  case (Cons subj rest)
  obtain ord s1 where c: "create_order now pid subj (ticket_price subj) m s = (ord, s1)"
    by (cases "create_order now pid subj (ticket_price subj) m s")
  obtain ords1 s2 where r: "create_orders now pid m rest s1 = (ords1, s2)"
    by (cases "create_orders now pid m rest s1")
  from Cons.prems c r have e: "ords = ord # ords1" "s' = s2" by simp_all
  from c have o: "orders s1 = ord # orders s" "total_amount ord = ticket_price subj"
      "status ord = Pending" "order_id ord = next_order_id s" "next_order_id s1 = next_order_id s + 1"
    by (auto simp add: create_order_def Let_def)
  from Cons.IH [OF r] o e show ?case by auto
qed

text \<open>
  The Payme endpoint: for a non-empty valid selection the first order created carries the
  sum of the prices of all selected subjects, the pay link names that order and the sum in
  tiyin, and every further order carries its own subject's price.
\<close>

lemma initiate_payment_first_order:
  assumes "participants s pid = Some p" and "\<not> is_paid p" and "subject_ids \<noteq> []"
    and sel: "selected_subjects subject_ids s = subj # rest"
    and "PAYME_ID cfg = Some merchant" and "merchant \<noteq> []" and "ticket_uri \<noteq> []"
  shows "\<exists>s' first_order others.
           initiate_payment b64encode cfg now ticket_uri (Some pid) subject_ids s =
             (InitSuccess (order_id first_order) (sum_list (map ticket_price (subj # rest)))
                (''https://checkout.paycom.uz/'' @
                   b64encode (''m='' @ merchant @ '';ac.order_id='' @ str_int (order_id first_order)
                      @ '';a='' @ str_int (int_of_decimal (sum_list (map ticket_price (subj # rest)) * 100))
                      @ '';c='' @ ticket_uri)), s') \<and>
           orders s' = rev others @ first_order # orders (cancel_pending pid s) \<and>
           total_amount first_order = sum_list (map ticket_price (subj # rest)) \<and>
           map total_amount others = map ticket_price rest"
proof -
  let ?total = "sum_list (map ticket_price (subj # rest))"
  let ?s1 = "cancel_pending pid s"
  obtain first_order s2 where c: "create_order now pid subj ?total ''payme'' ?s1 = (first_order, s2)"
    by (cases "create_order now pid subj ?total ''payme'' ?s1")
  obtain others s3 where r: "create_orders now pid ''payme'' rest s2 = (others, s3)"
    by (cases "create_orders now pid ''payme'' rest s2")
  from c have o: "orders s2 = first_order # orders ?s1" "total_amount first_order = ?total"
    by (auto simp add: create_order_def Let_def)
  from create_orders_spec [OF r] o
  have t: "orders s3 = rev others @ first_order # orders ?s1"
          "map total_amount others = map ticket_price rest"
    by simp_all
  have run: "initiate_payment b64encode cfg now ticket_uri (Some pid) subject_ids s =
             (InitSuccess (order_id first_order) ?total
                (''https://checkout.paycom.uz/'' @
                   b64encode (''m='' @ merchant @ '';ac.order_id='' @ str_int (order_id first_order)
                      @ '';a='' @ str_int (int_of_decimal (?total * 100))
                      @ '';c='' @ ticket_uri)), s3)"
    using assms c r
    by (simp add: initiate_payment_def Let_def generate_pay_link_def truthy_str_def
             del: create_orders.simps)
  from run t o(2) show ?thesis by blast
qed

text \<open>
  The Click endpoint: the pay link names the first order and the sum of all prices, but the
  first order, like every other, carries its own subject's price only.
\<close>

lemma initiate_click_payment_first_order:
  assumes "participants s pid = Some p" and "\<not> is_paid p" and "subject_ids \<noteq> []"
    and sel: "selected_subjects subject_ids s = subj # rest"
    and "CLICK_SERVICE_ID cfg = Some service" and "service \<noteq> []" and "ticket_uri \<noteq> []"
  shows "\<exists>s' first_order others.
           initiate_click_payment quote cfg now ticket_uri (Some pid) subject_ids s =
             (InitSuccess (order_id first_order) (sum_list (map ticket_price (subj # rest)))
                (''https://my.click.uz/services/pay'' @ ''?service_id='' @ service @ ''&merchant_id=''
                   @ (case CLICK_MERCHANT_ID cfg of None \<Rightarrow> ''None'' | Some m \<Rightarrow> m)
                   @ ''&amount='' @ str_int (int_of_decimal (sum_list (map ticket_price (subj # rest))))
                   @ ''&transaction_param='' @ str_int (order_id first_order)
                   @ ''&return_url='' @ quote ticket_uri), s') \<and>
           orders s' = rev others @ first_order # orders (cancel_pending pid s) \<and>
           total_amount first_order = ticket_price subj \<and>
           map total_amount others = map ticket_price rest"
proof -
  let ?total = "sum_list (map ticket_price (subj # rest))"
  let ?s1 = "cancel_pending pid s"
  obtain created s2 where r: "create_orders now pid ''click'' (subj # rest) ?s1 = (created, s2)"
    by (cases "create_orders now pid ''click'' (subj # rest) ?s1")
  from create_orders_spec [OF r]
  have t: "orders s2 = rev created @ orders ?s1"
          "map total_amount created = map ticket_price (subj # rest)"
    by simp_all
  from t(2) obtain first_order others where c: "created = first_order # others"
    by (cases created) auto
  from t c have u: "orders s2 = rev others @ first_order # orders ?s1"
      "total_amount first_order = ticket_price subj"
      "map total_amount others = map ticket_price rest"
    by simp_all
  have run: "initiate_click_payment quote cfg now ticket_uri (Some pid) subject_ids s =
             (InitSuccess (order_id first_order) ?total
                (''https://my.click.uz/services/pay'' @ ''?service_id='' @ service @ ''&merchant_id=''
                   @ (case CLICK_MERCHANT_ID cfg of None \<Rightarrow> ''None'' | Some m \<Rightarrow> m)
                   @ ''&amount='' @ str_int (int_of_decimal ?total)
                   @ ''&transaction_param='' @ str_int (order_id first_order)
                   @ ''&return_url='' @ quote ticket_uri), s2)"
    using assms r c
    by (simp add: initiate_click_payment_def Let_def generate_click_pay_link_def truthy_str_def
             del: create_orders.simps)
  from run u show ?thesis by blast
qed

text \<open>
  The two endpoints on the same request, subjects 1 and 2 at 100.00 and 200.00: Payme stores
  300.00 on the first order (id 2).
\<close>

lemma initiate_payment_example:
  "fst (initiate_payment (\<lambda>u. u) example_settings 1700000003000 ''https://bond.uz/ticket/''
          (Some 7) [1, 2] example_store)
     = InitSuccess 2 300
         ''https://checkout.paycom.uz/m=merchant;ac.order_id=2;a=30000;c=https://bond.uz/ticket/'' \<and>
   map (\<lambda>x. (order_id x, total_amount x, status x))
     (orders (snd (initiate_payment (\<lambda>u. u) example_settings 1700000003000
                     ''https://bond.uz/ticket/'' (Some 7) [1, 2] example_store)))
     = [(3, 200, Pending), (2, 300, Pending), (1, 50000, Cancelled)]"
proof -
  have a: "fst (initiate_payment (\<lambda>u. u) example_settings 1700000003000 ''https://bond.uz/ticket/''
          (Some 7) [1, 2] example_store)
     = InitSuccess 2 300
         ''https://checkout.paycom.uz/m=merchant;ac.order_id=2;a=30000;c=https://bond.uz/ticket/''"
    by code_simp
  have b: "map (\<lambda>x. (order_id x, total_amount x, status x))
     (orders (snd (initiate_payment (\<lambda>u. u) example_settings 1700000003000
                     ''https://bond.uz/ticket/'' (Some 7) [1, 2] example_store)))
     = [(3, 200, Pending), (2, 300, Pending), (1, 50000, Cancelled)]"
    by code_simp
  from a b show ?thesis by (rule conjI)
qed

text \<open>
  Claim C1 says that at both initiation endpoints the first order created has total_amount
  equal to the sum of the ticket prices of all selected items, and that the pay link names
  that order with the aggregate amount. At the Click endpoint, for subjects 1 and 2 at
  100.00 and 200.00, the pay link carries amount=300 and transaction_param=2, while order 2
  is stored with total_amount 100.00, its own subject's price, not 300.00.
\<close>

theorem initiate_click_first_order_amount:
  "fst (initiate_click_payment (\<lambda>u. u) example_settings 1700000003000 ''https://bond.uz/ticket/''
          (Some 7) [1, 2] example_store)
     = InitSuccess 2 300
         ''https://my.click.uz/services/pay?service_id=77&merchant_id=5&amount=300&transaction_param=2&return_url=https://bond.uz/ticket/'' \<and>
   map (\<lambda>x. (order_id x, total_amount x, status x))
     (orders (snd (initiate_click_payment (\<lambda>u. u) example_settings 1700000003000
                     ''https://bond.uz/ticket/'' (Some 7) [1, 2] example_store)))
     = [(3, 200, Pending), (2, 100, Pending), (1, 50000, Cancelled)]"
proof -
  have a: "fst (initiate_click_payment (\<lambda>u. u) example_settings 1700000003000
                  ''https://bond.uz/ticket/'' (Some 7) [1, 2] example_store)
     = InitSuccess 2 300
         ''https://my.click.uz/services/pay?service_id=77&merchant_id=5&amount=300&transaction_param=2&return_url=https://bond.uz/ticket/''"
    by code_simp
  have b: "map (\<lambda>x. (order_id x, total_amount x, status x))
     (orders (snd (initiate_click_payment (\<lambda>u. u) example_settings 1700000003000
                     ''https://bond.uz/ticket/'' (Some 7) [1, 2] example_store)))
     = [(3, 200, Pending), (2, 100, Pending), (1, 50000, Cancelled)]"
    by code_simp
  from a b show ?thesis by (rule conjI)
qed

end
